theory Spec2Isabelle
  imports Main "HOL-Library.Multiset"
begin

section \<open>JavaScript values and completions\<close>

text \<open>
  The values that cross the library's interfaces: parsed JSON bodies, message payloads,
  promise results and thrown errors. Numbers are the integers among JavaScript's numbers;
  an error object is kept by the name of its class.
\<close>

datatype jsval =
    Undefined
  | Null
  | Bool bool
  | Num int
  | Str string
  | Arr "jsval list"
  | Obj "(string \<times> jsval) list"
  | Error string

text \<open>
  How a call ends: it returns a value, throws a value, or does not return at all.
\<close>

datatype 'a completion = Normal 'a | Throw jsval | Diverge

abbreviation TypeError :: jsval where
  "TypeError \<equiv> Error ''TypeError''"

text \<open>
  Reading a property \<open>v.k\<close>: a \<open>TypeError\<close> on \<open>undefined\<close> and \<open>null\<close>, the own
  property of an object, and \<open>undefined\<close> where there is none. Only keys that no
  prototype defines are ever read through this function.
\<close>

fun get_prop :: "jsval \<Rightarrow> string \<Rightarrow> jsval completion" where
  "get_prop Undefined k = Throw TypeError"
| "get_prop Null k = Throw TypeError"
| "get_prop (Obj kvs) k = Normal (case map_of kvs k of None \<Rightarrow> Undefined | Some v \<Rightarrow> v)"
| "get_prop v k = Normal Undefined"

text \<open>Decimal rendering of a number, as string concatenation \<open>'wid_' + n\<close> does it.\<close>

definition digit_char :: "nat \<Rightarrow> char" where
  "digit_char d = char_of (48 + d)"

fun show_nat :: "nat \<Rightarrow> string" where
  "show_nat n = (if n < 10 then [digit_char n] else show_nat (n div 10) @ [digit_char (n mod 10)])"

declare show_nat.simps [simp del]

definition show_int :: "int \<Rightarrow> string" where
  "show_int i = (if i < 0 then CHR ''-'' # show_nat (nat (- i)) else show_nat (nat i))"

text \<open>
  Conversion of a value to a property key (\<open>ToString\<close>): an array joins its elements
  with commas, \<open>null\<close> and \<open>undefined\<close> elements contributing nothing.
\<close>

fun join_commas :: "string list \<Rightarrow> string" where
  "join_commas [] = []"
| "join_commas [s] = s"
| "join_commas (s # t # ss) = s @ CHR '','' # join_commas (t # ss)"

fun to_key :: "jsval \<Rightarrow> string" where
  "to_key Undefined = ''undefined''"
| "to_key Null = ''null''"
| "to_key (Bool b) = (if b then ''true'' else ''false'')"
| "to_key (Num i) = show_int i"
| "to_key (Str s) = s"
| "to_key (Arr vs) =
     join_commas (map (\<lambda>v. if v = Undefined \<or> v = Null then [] else to_key v) vs)"
| "to_key (Obj kvs) = ''[object Object]''"
| "to_key (Error n) = n"

section \<open>EventEmitter\<close>

text \<open>
  One entry of \<open>this.listener[eventName]\<close>. Each call of \<open>on\<close> pushes a new object;
  \<open>rid\<close> is that object's identity, which \<open>emit\<close> compares with \<open>===\<close>. Functions and
  contexts are compared by identity too, so they are values of types with equality.
  An omitted \<open>order\<close> is \<open>None\<close>.
\<close>

record ('f, 'c) registration =
  rid :: nat
  eventName :: string
  fn :: 'f
  ctx :: 'c
  order :: "int option"

text \<open>
  The emitter: the own properties of the \<open>listener\<close> object, and the number of
  registration objects pushed so far (the next fresh identity). Classes that extend it
  extend this record.
\<close>

record ('f, 'c) emitter =
  listener :: "string \<rightharpoonup> ('f, 'c) registration list"
  next_rid :: nat

text \<open>
  \<open>this.listener\<close> is created as \<open>{}\<close>, so a name that it does not hold itself is
  found in \<open>Object.prototype\<close>: eleven functions, each with its \<open>length\<close>, and under
  \<open>__proto__\<close> the prototype object, which has no \<open>length\<close>. None of these values is
  falsy, has a \<open>push\<close> method, or has elements.
\<close>

datatype inherited = FunctionOfLength nat | PrototypeObject

definition Object_prototype :: "string \<Rightarrow> inherited option" where
  "Object_prototype k =
     (if k \<in> set [''constructor'', ''hasOwnProperty'', ''isPrototypeOf'',
                   ''propertyIsEnumerable'', ''__lookupGetter__'', ''__lookupSetter__'']
      then Some (FunctionOfLength 1)
      else if k \<in> set [''toString'', ''toLocaleString'', ''valueOf'']
      then Some (FunctionOfLength 0)
      else if k \<in> set [''__defineGetter__'', ''__defineSetter__'']
      then Some (FunctionOfLength 2)
      else if k = ''__proto__'' then Some PrototypeObject
      else None)"

text \<open>What \<open>this.listener[eventName]\<close> reads: nothing, an array of its own, or an inherited value.\<close>

datatype ('f, 'c) slot = Absent | Bucket "('f, 'c) registration list" | Inherited inherited

definition lookup :: "('f, 'c, 'z) emitter_scheme \<Rightarrow> string \<Rightarrow> ('f, 'c) slot" where
  "lookup s e =
     (case listener s e of
        Some xs \<Rightarrow> Bucket xs
      | None \<Rightarrow> (case Object_prototype e of None \<Rightarrow> Absent | Some v \<Rightarrow> Inherited v))"

text \<open>\<open>a.order > b.order\<close>: a comparison with \<open>undefined\<close> is false.\<close>

fun order_gt :: "int option \<Rightarrow> int option \<Rightarrow> bool" where
  "order_gt (Some a) (Some b) = (a > b)"
| "order_gt _ _ = False"

definition listener_cmp :: "('f, 'c) registration \<Rightarrow> ('f, 'c) registration \<Rightarrow> int" where
  "listener_cmp a b = (if order_gt (order a) (order b) then 1 else - 1)"

text \<open>
  \<open>on\<close>. An inherited value is truthy, so no array is made, and calling its missing
  \<open>push\<close> throws a \<open>TypeError\<close>: nothing is registered. The comparator never answers 0,
  so what \<open>Array.prototype.sort\<close> returns is up to the engine; the engine's sort is the
  parameter \<open>srt\<close>.
\<close>

definition on ::
  "((('f, 'c) registration \<Rightarrow> ('f, 'c) registration \<Rightarrow> int) \<Rightarrow>
      ('f, 'c) registration list \<Rightarrow> ('f, 'c) registration list) \<Rightarrow>
    string \<Rightarrow> 'f \<Rightarrow> 'c \<Rightarrow> int option \<Rightarrow>
    ('f, 'c, 'z) emitter_scheme \<Rightarrow> jsval completion \<times> ('f, 'c, 'z) emitter_scheme" where
  "on srt e f c ord s =
     (let push = (\<lambda>xs.
            xs @ [\<lparr>rid = next_rid s, eventName = e, fn = f, ctx = c, order = ord\<rparr>]);
          sorted = (\<lambda>xs.
            (Normal Undefined,
             s\<lparr>listener := (listener s)(e \<mapsto> srt listener_cmp (push xs)),
               next_rid := Suc (next_rid s)\<rparr>))
      in case lookup s e of
           Absent \<Rightarrow> sorted []
         | Bucket xs \<Rightarrow> sorted xs
         | Inherited v \<Rightarrow> (Throw TypeError, s))"

text \<open>
  An insertion sort driven by the comparator, one behaviour an engine may have; it is the
  engine of the examples.
\<close>

fun ins_rev :: "('a \<Rightarrow> 'a \<Rightarrow> int) \<Rightarrow> 'a \<Rightarrow> 'a list \<Rightarrow> 'a list" where
  "ins_rev cmp x [] = [x]"
| "ins_rev cmp x (y # ys) = (if cmp y x > 0 then y # ins_rev cmp x ys else x # y # ys)"

definition insertion_sort :: "('a \<Rightarrow> 'a \<Rightarrow> int) \<Rightarrow> 'a list \<Rightarrow> 'a list" where
  "insertion_sort cmp xs = rev (foldl (\<lambda>acc x. ins_rev cmp x acc) [] xs)"

text \<open>
  The loop of \<open>off\<close>: \<open>while( i-- )\<close> visits the indices \<open>i - 1\<close> down to 0 and splices
  out every entry whose function and context both match. Reading \<open>.fn\<close> of a missing
  entry would be a \<open>TypeError\<close>, here \<open>None\<close>.
\<close>

fun off_loop ::
  "nat \<Rightarrow> 'f \<Rightarrow> 'c \<Rightarrow> ('f, 'c) registration list \<Rightarrow> ('f, 'c) registration list option" where
  "off_loop 0 f c xs = Some xs"
| "off_loop (Suc i) f c xs =
     (if i < length xs then
        off_loop i f c
          (if fn (xs ! i) = f \<and> ctx (xs ! i) = c then take i xs @ drop (Suc i) xs else xs)
      else None)"

text \<open>
  \<open>off\<close>. On an inherited function of \<open>length\<close> \<open>n > 0\<close> the loop starts and reads
  \<open>.fn\<close> of the element \<open>n - 1\<close>, which is \<open>undefined\<close>: a \<open>TypeError\<close>. With
  \<open>length\<close> 0 the loop is skipped and \<open>delete\<close> finds no own property; with the
  \<open>length\<close> \<open>undefined\<close> of the prototype object, \<open>i--\<close> is \<open>NaN\<close>, the loop is
  skipped and so is the \<open>delete\<close>.
\<close>

definition off ::
  "string \<Rightarrow> 'f \<Rightarrow> 'c \<Rightarrow> ('f, 'c, 'z) emitter_scheme \<Rightarrow>
    jsval completion \<times> ('f, 'c, 'z) emitter_scheme" where
  "off e f c s =
     (case lookup s e of
        Absent \<Rightarrow> (Normal Undefined, s)
      | Inherited v \<Rightarrow>
          (case v of
             FunctionOfLength n \<Rightarrow> if n > 0 then (Throw TypeError, s) else (Normal Undefined, s)
           | PrototypeObject \<Rightarrow> (Normal Undefined, s))
      | Bucket xs \<Rightarrow>
          (case off_loop (length xs) f c xs of
             None \<Rightarrow> (Throw TypeError, s)
           | Some ys \<Rightarrow>
               if length ys = 0 then (Normal Undefined, s\<lparr>listener := (listener s)(e := None)\<rparr>)
               else (Normal Undefined, s\<lparr>listener := (listener s)(e \<mapsto> ys)\<rparr>)))"

text \<open>
  \<open>emit\<close>. A listener is called through \<open>call\<close>, which gives the functions their
  behaviour: from the function, its context, the arguments and the state of the emitter
  (a listener may call \<open>on\<close>, \<open>off\<close> and \<open>emit\<close> itself) to a completion and the new
  state. The loop reads the live slot at every step and may run forever, so it takes
  fuel; running out of it is \<open>Diverge\<close>. An inherited value passes the first test but has
  no element \<open>i\<close>, so the loop ends at once. Beside the completion and the state, the
  registrations that were invoked are returned in order.
\<close>

fun emit_loop ::
  "('f \<Rightarrow> 'c \<Rightarrow> jsval list \<Rightarrow> ('f, 'c, 'z) emitter_scheme \<Rightarrow>
      jsval completion \<times> ('f, 'c, 'z) emitter_scheme) \<Rightarrow>
    nat \<Rightarrow> string \<Rightarrow> jsval list \<Rightarrow> nat \<Rightarrow> ('f, 'c, 'z) emitter_scheme \<Rightarrow>
    jsval completion \<times> ('f, 'c) registration list \<times> ('f, 'c, 'z) emitter_scheme" where
  "emit_loop call 0 e args i s = (Diverge, [], s)"
| "emit_loop call (Suc k) e args i s =
     (case lookup s e of
        Bucket xs \<Rightarrow>
          if i < length xs then
            (let last = xs ! i in
             case call (fn last) (ctx last) args s of
               (Throw x, s') \<Rightarrow> (Throw x, [last], s')
             | (Diverge, s') \<Rightarrow> (Diverge, [last], s')
             | (Normal v, s') \<Rightarrow>
                 if v = Bool False then (Normal Undefined, [last], s')
                 else
                   (let i' = (case lookup s' e of
                                Bucket ys \<Rightarrow>
                                  if i < length ys \<and> rid (ys ! i) = rid last then Suc i else i
                              | _ \<Rightarrow> i)
                    in case emit_loop call k e args i' s' of
                         (r, tr, s'') \<Rightarrow> (r, last # tr, s'')))
          else (Normal Undefined, [], s)
      | _ \<Rightarrow> (Normal Undefined, [], s))"

definition emit ::
  "('f \<Rightarrow> 'c \<Rightarrow> jsval list \<Rightarrow> ('f, 'c, 'z) emitter_scheme \<Rightarrow>
      jsval completion \<times> ('f, 'c, 'z) emitter_scheme) \<Rightarrow>
    nat \<Rightarrow> string \<Rightarrow> jsval list \<Rightarrow> ('f, 'c, 'z) emitter_scheme \<Rightarrow>
    jsval completion \<times> ('f, 'c) registration list \<times> ('f, 'c, 'z) emitter_scheme" where
  "emit call fuel e args s =
     (case lookup s e of
        Absent \<Rightarrow> (Normal Undefined, [], s)
      | _ \<Rightarrow> emit_loop call fuel e args 0 s)"

text \<open>
  \<open>hasListeners\<close>, by the truth of what it returns; the \<open>length\<close> of an inherited
  function counts.
\<close>

definition hasListeners :: "string \<Rightarrow> ('f, 'c, 'z) emitter_scheme \<Rightarrow> bool" where
  "hasListeners e s =
     (case lookup s e of
        Absent \<Rightarrow> False
      | Bucket xs \<Rightarrow> length xs > 0
      | Inherited v \<Rightarrow> (case v of FunctionOfLength n \<Rightarrow> n > 0 | PrototypeObject \<Rightarrow> False))"

text \<open>
  Sequences of \<open>on\<close> and \<open>off\<close> calls; a call that throws leaves the emitter to the
  next one.
\<close>

datatype ('f, 'c) bus_op = On string 'f 'c "int option" | Off string 'f 'c

fun apply_op ::
  "((('f, 'c) registration \<Rightarrow> ('f, 'c) registration \<Rightarrow> int) \<Rightarrow>
      ('f, 'c) registration list \<Rightarrow> ('f, 'c) registration list) \<Rightarrow>
    ('f, 'c) bus_op \<Rightarrow> ('f, 'c, 'z) emitter_scheme \<Rightarrow> ('f, 'c, 'z) emitter_scheme" where
  "apply_op srt (On e f c ord) s = snd (on srt e f c ord s)"
| "apply_op srt (Off e f c) s = snd (off e f c s)"

definition run_ops ::
  "((('f, 'c) registration \<Rightarrow> ('f, 'c) registration \<Rightarrow> int) \<Rightarrow>
      ('f, 'c) registration list \<Rightarrow> ('f, 'c) registration list) \<Rightarrow>
    ('f, 'c) bus_op list \<Rightarrow> ('f, 'c, 'z) emitter_scheme \<Rightarrow> ('f, 'c, 'z) emitter_scheme" where
  "run_ops srt ops s = foldl (\<lambda>s op. apply_op srt op s) s ops"

text \<open>The registrations of an event, and those of one function and context among them.\<close>

definition bucket :: "('f, 'c, 'z) emitter_scheme \<Rightarrow> string \<Rightarrow> ('f, 'c) registration list" where
  "bucket s e = (case listener s e of None \<Rightarrow> [] | Some xs \<Rightarrow> xs)"

definition matching :: "'f \<Rightarrow> 'c \<Rightarrow> ('f, 'c) registration \<Rightarrow> bool" where
  "matching f c r = (fn r = f \<and> ctx r = c)"

definition registered :: "('f, 'c, 'z) emitter_scheme \<Rightarrow> string \<Rightarrow> 'f \<Rightarrow> 'c \<Rightarrow> nat" where
  "registered s e f c = length (filter (matching f c) (bucket s e))"

definition new_EventEmitter :: "('f, 'c) emitter" where
  "new_EventEmitter = \<lparr>listener = Map.empty, next_rid = 0\<rparr>"

section \<open>Promises\<close>

text \<open>
  A promise is pending or settled, for good. \<open>getPromise\<close> returns a pending promise
  with its \<open>resolve\<close> and \<open>reject\<close> handed out; both do nothing once it is settled.
  No value of this model is itself a promise, so resolving fulfils.
\<close>

datatype promise = Pending | Fulfilled jsval | Rejected jsval

definition getPromise :: promise where
  "getPromise = Pending"

fun promise_resolve :: "promise \<Rightarrow> jsval \<Rightarrow> promise" where
  "promise_resolve Pending v = Fulfilled v"
| "promise_resolve p v = p"

fun promise_reject :: "promise \<Rightarrow> jsval \<Rightarrow> promise" where
  "promise_reject Pending v = Rejected v"
| "promise_reject p v = p"

text \<open>
  \<open>p.then(f)\<close> and \<open>p.catch(g)\<close>, read once \<open>p\<close> has reached its last state: the
  callback runs on the state \<open>'s\<close> that it closes over, and the derived promise takes
  what it returns or throws. A pending \<open>p\<close> runs no callback.
\<close>

fun promise_then ::
  "promise \<Rightarrow> (jsval \<Rightarrow> 's \<Rightarrow> jsval completion \<times> 's) \<Rightarrow> 's \<Rightarrow> promise \<times> 's" where
  "promise_then Pending f s = (Pending, s)"
| "promise_then (Rejected r) f s = (Rejected r, s)"
| "promise_then (Fulfilled v) f s =
     (case f v s of
        (Normal x, s') \<Rightarrow> (Fulfilled x, s')
      | (Throw x, s') \<Rightarrow> (Rejected x, s')
      | (Diverge, s') \<Rightarrow> (Pending, s'))"

fun promise_catch ::
  "promise \<Rightarrow> (jsval \<Rightarrow> 's \<Rightarrow> jsval completion \<times> 's) \<Rightarrow> 's \<Rightarrow> promise \<times> 's" where
  "promise_catch Pending g s = (Pending, s)"
| "promise_catch (Fulfilled v) g s = (Fulfilled v, s)"
| "promise_catch (Rejected r) g s =
     (case g r s of
        (Normal x, s') \<Rightarrow> (Fulfilled x, s')
      | (Throw x, s') \<Rightarrow> (Rejected x, s')
      | (Diverge, s') \<Rightarrow> (Pending, s'))"

text \<open>
  \<open>new Promise(executor)\<close>: the executor works on the new promise through \<open>resolve\<close>
  and \<open>reject\<close>; what it throws rejects the promise, if that is still pending.
\<close>

definition new_Promise :: "(promise \<Rightarrow> jsval completion \<times> promise) \<Rightarrow> promise" where
  "new_Promise executor =
     (case executor Pending of
        (Throw x, p) \<Rightarrow> promise_reject p x
      | (c, p) \<Rightarrow> p)"

text \<open>What a function that should return a promise handed to its caller.\<close>

datatype returned = ReturnedUndefined | ReturnedPromise promise

section \<open>Transport\<close>

text \<open>
  The browser is a collaborator. Of a request object the library reads \<open>readyState\<close>,
  \<open>status\<close> and \<open>responseText\<close>; the built-ins it calls are fields of \<open>browser\<close>:
  the constructors behind the factory list (\<open>Inl\<close> what one throws), \<open>JSON.parse\<close>
  (\<open>Inl\<close> the error thrown), \<open>JSON.stringify\<close> (\<open>None\<close> is \<open>undefined\<close>),
  \<open>document.querySelector\<close> (\<open>Inl\<close> what it throws, \<open>None\<close> for no match),
  \<open>Math.max\<close> of a number and a value, and the match of the origin pattern
  \<open>/^.+\:\/\/[^\/]+\//\<close> against the \<open>src\<close> that a frame reports (\<open>None\<close> is \<open>null\<close>).
\<close>

datatype factory = XMLHttpRequest | ActiveXObject string

record xhr =
  readyState :: nat
  status :: int
  responseText :: string

record element =
  offsetWidth :: int

record browser =
  construct :: "factory \<Rightarrow> jsval + xhr"
  JSON_parse :: "string \<Rightarrow> jsval + jsval"
  JSON_stringify :: "jsval \<Rightarrow> string option"
  querySelector :: "string \<Rightarrow> jsval + element option"
  Math_max :: "int \<Rightarrow> jsval \<Rightarrow> jsval"
  match_origin :: "string \<Rightarrow> string option"

definition XMLHttpFactories :: "factory list" where
  "XMLHttpFactories =
     [XMLHttpRequest,
      ActiveXObject ''Msxml3.XMLHTTP'',
      ActiveXObject ''Msxml2.XMLHTTP.6.0'',
      ActiveXObject ''Msxml2.XMLHTTP.3.0'',
      ActiveXObject ''Msxml2.XMLHTTP'',
      ActiveXObject ''Microsoft.XMLHTTP'']"

text \<open>
  \<open>createXMLHTTPObject\<close>: the first factory that does not throw gives the object;
  \<open>None\<close> is the initial \<open>false\<close>, returned when every factory throws.
\<close>

fun first_factory :: "browser \<Rightarrow> factory list \<Rightarrow> xhr option" where
  "first_factory br [] = None"
| "first_factory br (f # fs) =
     (case construct br f of Inl x \<Rightarrow> first_factory br fs | Inr req \<Rightarrow> Some req)"

definition createXMLHTTPObject :: "browser \<Rightarrow> xhr option" where
  "createXMLHTTPObject br = first_factory br XMLHttpFactories"

record http_request =
  http_method :: string
  url :: string
  body :: "string option"
  withCredentials :: bool
  headers :: "(string \<times> string) list"

text \<open>
  The handler that \<open>sendRequest\<close> installs as \<open>req.onreadystatechange\<close>. It runs on
  the request object as it is at the event, on the promise of the call and on the state
  \<open>'w\<close> that the transform function works on. \<open>JSON.parse\<close> and the transform function
  are called with nothing around them: what they throw leaves the handler, and the promise
  is as it was.
\<close>

definition envelope :: "int \<Rightarrow> jsval \<Rightarrow> jsval" where
  "envelope st d = Obj [(''status'', Num st), (''data'', d)]"

definition onreadystatechange ::
  "browser \<Rightarrow> (jsval \<Rightarrow> 'w \<Rightarrow> jsval completion \<times> 'w) option \<Rightarrow> xhr \<Rightarrow>
    promise \<times> 'w \<Rightarrow> jsval completion \<times> promise \<times> 'w" where
  "onreadystatechange br transformFn req pw =
     (case pw of (p, w) \<Rightarrow>
        if readyState req \<noteq> 4 then (Normal Undefined, p, w)
        else
          (case JSON_parse br (responseText req) of
             Inl x \<Rightarrow> (Throw x, p, w)
           | Inr d \<Rightarrow>
               (let responseData = envelope (status req) d in
                if status req \<noteq> 200 \<and> status req \<noteq> 304 then
                  (Normal Undefined, promise_reject p responseData, w)
                else
                  (case transformFn of
                     None \<Rightarrow> (Normal Undefined, promise_resolve p responseData, w)
                   | Some f \<Rightarrow>
                       (case f responseData w of
                          (Normal v, w') \<Rightarrow> (Normal Undefined, promise_resolve p v, w')
                        | (Throw x, w') \<Rightarrow> (Throw x, p, w')
                        | (Diverge, w') \<Rightarrow> (Diverge, p, w'))))))"

text \<open>
  What a call of \<open>sendRequest\<close> leaves behind: whether it returned the promise
  (\<open>return promise\<close>) or nothing (\<open>return\<close>), the promise it made, the request it sent
  if any, and the handler it installed if any.
\<close>

record 'w call =
  returned_promise :: bool
  call_promise :: promise
  sent :: "http_request option"
  handler :: "(xhr \<Rightarrow> promise \<times> 'w \<Rightarrow> jsval completion \<times> promise \<times> 'w) option"

text \<open>
  \<open>sendRequest\<close>. \<open>postData ? "POST" : "GET"\<close>: \<open>null\<close>, \<open>undefined\<close> and the empty
  string give GET. The request object is read after \<open>open\<close>.
\<close>

definition sendRequest ::
  "browser \<Rightarrow> string \<Rightarrow> string option \<Rightarrow> (jsval \<Rightarrow> 'w \<Rightarrow> jsval completion \<times> 'w) option \<Rightarrow>
    'w call" where
  "sendRequest br u postData transformFn =
     (let promise = getPromise;
          meth = (case postData of None \<Rightarrow> ''GET'' | Some d \<Rightarrow> if d = [] then ''GET'' else ''POST'')
      in case createXMLHTTPObject br of
           None \<Rightarrow>
             \<lparr>returned_promise = False,
              call_promise = promise_reject promise (Str ''Could not create XMLHTTPObject''),
              sent = None, handler = None\<rparr>
         | Some req \<Rightarrow>
             if readyState req = 4 then
               \<lparr>returned_promise = False, call_promise = promise, sent = None,
                handler = Some (onreadystatechange br transformFn)\<rparr>
             else
               \<lparr>returned_promise = True, call_promise = promise,
                sent = Some \<lparr>http_method = meth, url = u, body = postData, withCredentials = True,
                             headers = [(''Content-type'', ''application/json'')]\<rparr>,
                handler = Some (onreadystatechange br transformFn)\<rparr>)"

definition get ::
  "browser \<Rightarrow> string \<Rightarrow> (jsval \<Rightarrow> 'w \<Rightarrow> jsval completion \<times> 'w) option \<Rightarrow> 'w call" where
  "get br u transformFn = sendRequest br u None transformFn"

definition post ::
  "browser \<Rightarrow> string \<Rightarrow> jsval \<Rightarrow> (jsval \<Rightarrow> 'w \<Rightarrow> jsval completion \<times> 'w) option \<Rightarrow> 'w call" where
  "post br u d transformFn = sendRequest br u (JSON_stringify br d) transformFn"

text \<open>
  A call followed to its end. \<open>response\<close> is the request object at the one event with
  \<open>readyState\<close> 4, or \<open>None\<close> when the request never completes; the handler runs only
  for a request that was sent. The outcome holds what the caller was handed, with the
  promise in its last state, how the handler ended, and the state after it.
\<close>

record 'w outcome =
  caller_gets :: returned
  handler_ended :: "jsval completion option"
  world :: 'w

definition finish :: "'w call \<Rightarrow> xhr option \<Rightarrow> 'w \<Rightarrow> 'w outcome" where
  "finish c response w =
     (let view = (\<lambda>p. if returned_promise c then ReturnedPromise p else ReturnedUndefined)
      in case (sent c, handler c, response) of
           (Some rq, Some h, Some req) \<Rightarrow>
             (case h req (call_promise c, w) of
                (r, p, w') \<Rightarrow> \<lparr>caller_gets = view p, handler_ended = Some r, world = w'\<rparr>)
         | _ \<Rightarrow> \<lparr>caller_gets = view (call_promise c), handler_ended = None, world = w\<rparr>)"

section \<open>Widget and Saaslet\<close>

text \<open>
  A widget and its frame. \<open>width\<close> and \<open>height\<close> of the frame are \<open>undefined\<close> until
  \<open>setSize\<close> writes them; \<open>in_document\<close> says whether the frame is attached.
\<close>

record iframe =
  src :: string
  display :: string
  frameBorder :: int
  allowTransparency :: bool
  width :: jsval
  height :: jsval
  in_document :: bool

record widget =
  widget_id :: string
  name :: string
  parentElement :: element
  iFrame :: iframe
  origin :: string

text \<open>
  \<open>Saaslet extends EventEmitter\<close>. Widget objects are shared between the registry and
  the caller who holds them, so they live in a store, \<open>widgets\<close>, and are referred to by
  their index there; \<open>activeWidgets\<close> maps an id to the widget registered under it.
\<close>

record ('f, 'c) saaslet = "('f, 'c) emitter" +
  appPublishableKey :: string
  activeWidgets :: "string \<rightharpoonup> nat"
  widgetCount :: nat
  baseUrl :: string
  apiUrl :: string
  widgets :: "widget list"

definition new_Saaslet :: "string \<Rightarrow> ('f, 'c) saaslet" where
  "new_Saaslet key =
     \<lparr>listener = Map.empty, next_rid = 0, appPublishableKey = key,
      activeWidgets = Map.empty, widgetCount = 0,
      baseUrl = ''http://devapp.saaslet.com:8080/'',
      apiUrl = ''https://api.saaslet.com/'', widgets = []\<rparr>"

text \<open>Sequencing: the continuation runs on a value; a throw passes through.\<close>

definition and_then ::
  "'a completion \<Rightarrow> 's \<Rightarrow> ('a \<Rightarrow> 'b completion \<times> 's) \<Rightarrow> 'b completion \<times> 's" where
  "and_then c s k = (case c of Normal v \<Rightarrow> k v | Throw x \<Rightarrow> (Throw x, s) | Diverge \<Rightarrow> (Diverge, s))"

text \<open>
  The \<open>Widget\<close> constructor. A pattern that does not match gives \<open>null\<close>, and reading
  \<open>[0]\<close> of it throws before the frame is appended.
\<close>

definition new_Widget ::
  "browser \<Rightarrow> string \<Rightarrow> string \<Rightarrow> element \<Rightarrow> string \<Rightarrow> widget completion" where
  "new_Widget br i n el iFrameUrl =
     (let fr = \<lparr>src = iFrameUrl, display = ''block'', frameBorder = 0,
                allowTransparency = True, width = Undefined, height = Undefined,
                in_document = False\<rparr>
      in case match_origin br (src fr) of
           None \<Rightarrow> Throw TypeError
         | Some og \<Rightarrow>
             Normal \<lparr>widget_id = i, name = n, parentElement = el,
                     iFrame = fr\<lparr>in_document := True\<rparr>, origin = og\<rparr>)"

text \<open>
  \<open>setSize\<close>, on the widget at a reference. The parent element is read as the widget
  recorded it.
\<close>

definition setSize ::
  "browser \<Rightarrow> nat \<Rightarrow> jsval \<Rightarrow> jsval \<Rightarrow> ('f, 'c, 'z) saaslet_scheme \<Rightarrow> ('f, 'c, 'z) saaslet_scheme" where
  "setSize br ref w h s =
     (let wg = widgets s ! ref
      in s\<lparr>widgets := (widgets s)
             [ref := wg\<lparr>iFrame := (iFrame wg)
                \<lparr>width := Math_max br (offsetWidth (parentElement wg)) w, height := h\<rparr>\<rparr>]\<rparr>)"

text \<open>The argument \<open>elementOrSelector\<close>: a selector string, an element, or a falsy value.\<close>

datatype element_arg = Selector string | Element element | NoElement

definition resolveElement :: "browser \<Rightarrow> element_arg \<Rightarrow> element completion" where
  "resolveElement br a =
     (case a of
        Selector sel \<Rightarrow>
          (case querySelector br sel of
             Inl x \<Rightarrow> Throw x
           | Inr None \<Rightarrow> Throw (Error ''Error'')
           | Inr (Some el) \<Rightarrow> Normal el)
      | Element el \<Rightarrow> Normal el
      | NoElement \<Rightarrow> Throw (Error ''Error''))"

text \<open>
  \<open>createWidget\<close>, up to its return: the reference of the new widget stands for the
  promise that resolves with it once the frame has loaded.
\<close>

definition createWidget ::
  "browser \<Rightarrow> string \<Rightarrow> element_arg \<Rightarrow> ('f, 'c, 'z) saaslet_scheme \<Rightarrow>
    nat completion \<times> ('f, 'c, 'z) saaslet_scheme" where
  "createWidget br widgetName elementOrSelector s =
     and_then (resolveElement br elementOrSelector) s (\<lambda>el.
       let widgetId = ''wid_'' @ show_nat (widgetCount s);
           u = baseUrl s @ ''?widgetId='' @ widgetId @ ''&standalone=true&name='' @ widgetName
                 @ ''&appKey='' @ appPublishableKey s
       in and_then (new_Widget br widgetId widgetName el u) s (\<lambda>wg.
            (Normal (length (widgets s)),
             s\<lparr>widgets := widgets s @ [wg],
               widgetCount := Suc (widgetCount s),
               activeWidgets := (activeWidgets s)(widgetId \<mapsto> length (widgets s))\<rparr>)))"

definition removeWidget ::
  "string \<Rightarrow> ('f, 'c, 'z) saaslet_scheme \<Rightarrow> ('f, 'c, 'z) saaslet_scheme" where
  "removeWidget i s = s\<lparr>activeWidgets := (activeWidgets s)(i := None)\<rparr>"

text \<open>\<open>destroy\<close>, called on the widget at a reference.\<close>

definition destroy :: "nat \<Rightarrow> ('f, 'c, 'z) saaslet_scheme \<Rightarrow> ('f, 'c, 'z) saaslet_scheme" where
  "destroy ref s =
     (if ref < length (widgets s) then
        (let wg = widgets s ! ref
         in removeWidget (widget_id wg)
              (s\<lparr>widgets := (widgets s)
                   [ref := wg\<lparr>iFrame := (iFrame wg)\<lparr>in_document := False\<rparr>\<rparr>]\<rparr>))
      else s)"

text \<open>
  A \<open>message\<close> event as the window delivers it: the origin of the sender and the payload.
  In \<open>_onWidgetMessage\<close> an id with no registered widget reads \<open>setSize\<close> of
  \<open>undefined\<close> (or calls the \<open>undefined\<close> method of an inherited property), a \<open>TypeError\<close>
  either way.
\<close>

record message =
  msg_origin :: string
  data :: jsval

definition onWidgetMessage ::
  "browser \<Rightarrow> message \<Rightarrow> ('f, 'c, 'z) saaslet_scheme \<Rightarrow>
    jsval completion \<times> ('f, 'c, 'z) saaslet_scheme" where
  "onWidgetMessage br msg s =
     and_then (get_prop (data msg) ''source'') s (\<lambda>source.
       if source \<noteq> Str ''saaslet-widget'' then (Normal Undefined, s)
       else and_then (get_prop (data msg) ''action'') s (\<lambda>action.
         if action = Str ''resize'' then
           and_then (get_prop (data msg) ''widgetId'') s (\<lambda>widgetId.
             case activeWidgets s (to_key widgetId) of
               None \<Rightarrow> (Throw TypeError, s)
             | Some ref \<Rightarrow>
                 and_then (get_prop (data msg) ''data'') s (\<lambda>d.
                   and_then (get_prop d ''width'') s (\<lambda>w.
                     and_then (get_prop d ''height'') s (\<lambda>h.
                       (Normal Undefined, setSize br ref w h s)))))
         else (Normal Undefined, s)))"

text \<open>
  Sequences of \<open>createWidget\<close> and \<open>destroy\<close> calls on one instance, with the ids of
  the widgets that the \<open>createWidget\<close> calls returned, in order. A call that throws
  returns none.
\<close>

datatype widget_op = CreateWidget string element_arg | Destroy nat

fun run_widget_ops ::
  "browser \<Rightarrow> widget_op list \<Rightarrow> ('f, 'c, 'z) saaslet_scheme \<Rightarrow>
    string list \<times> ('f, 'c, 'z) saaslet_scheme" where
  "run_widget_ops br [] s = ([], s)"
| "run_widget_ops br (CreateWidget n a # ops) s =
     (case createWidget br n a s of
        (Normal ref, s') \<Rightarrow>
          (case run_widget_ops br ops s' of
             (ids, s'') \<Rightarrow> (widget_id (widgets s' ! ref) # ids, s''))
      | (c, s') \<Rightarrow> run_widget_ops br ops s')"
| "run_widget_ops br (Destroy ref # ops) s = run_widget_ops br ops (destroy ref s)"

section \<open>User\<close>

record user =
  user_apiUrl :: string
  user_appPublishableKey :: string

definition new_User :: "string \<Rightarrow> string \<Rightarrow> user" where
  "new_User a k = \<lparr>user_apiUrl = a, user_appPublishableKey = k\<rparr>"

text \<open>
  \<open>this.parent.emit( name )\<close>. The state that the transform functions of \<open>User\<close> work
  on is the parent together with a history of the emissions made on it: for each call of
  \<open>emit\<close>, the event name and the registrations that the call invoked.
\<close>

definition parent_emit ::
  "('f \<Rightarrow> 'c \<Rightarrow> jsval list \<Rightarrow> ('f, 'c, 'z) saaslet_scheme \<Rightarrow>
      jsval completion \<times> ('f, 'c, 'z) saaslet_scheme) \<Rightarrow>
    nat \<Rightarrow> string \<Rightarrow>
    (string \<times> ('f, 'c) registration list) list \<times> ('f, 'c, 'z) saaslet_scheme \<Rightarrow>
    jsval completion \<times> (string \<times> ('f, 'c) registration list) list \<times> ('f, 'c, 'z) saaslet_scheme" where
  "parent_emit call fuel n w =
     (case w of (emitted, s) \<Rightarrow>
        (case emit call fuel n [] s of (r, tr, s') \<Rightarrow> (r, emitted @ [(n, tr)], s')))"

definition credentials :: "user \<Rightarrow> string \<Rightarrow> string \<Rightarrow> jsval" where
  "credentials u email password =
     Obj [(''email'', Str email), (''password'', Str password),
          (''appPublishableKey'', Str (user_appPublishableKey u))]"

definition signup ::
  "browser \<Rightarrow>
    ('f \<Rightarrow> 'c \<Rightarrow> jsval list \<Rightarrow> ('f, 'c, 'z) saaslet_scheme \<Rightarrow>
      jsval completion \<times> ('f, 'c, 'z) saaslet_scheme) \<Rightarrow>
    nat \<Rightarrow> user \<Rightarrow> string \<Rightarrow> string \<Rightarrow>
    ((string \<times> ('f, 'c) registration list) list \<times> ('f, 'c, 'z) saaslet_scheme) call" where
  "signup br call fuel u email password =
     post br (user_apiUrl u @ ''users/signup'') (credentials u email password)
       (Some (\<lambda>d w.
          case parent_emit call fuel ''signup'' w of (r, w') \<Rightarrow>
            and_then r w' (\<lambda>x.
              and_then (get_prop d ''data'') w' (\<lambda>dd. (get_prop dd ''userId'', w')))))"

definition login ::
  "browser \<Rightarrow>
    ('f \<Rightarrow> 'c \<Rightarrow> jsval list \<Rightarrow> ('f, 'c, 'z) saaslet_scheme \<Rightarrow>
      jsval completion \<times> ('f, 'c, 'z) saaslet_scheme) \<Rightarrow>
    nat \<Rightarrow> user \<Rightarrow> string \<Rightarrow> string \<Rightarrow>
    ((string \<times> ('f, 'c) registration list) list \<times> ('f, 'c, 'z) saaslet_scheme) call" where
  "login br call fuel u email password =
     post br (user_apiUrl u @ ''users/login'') (credentials u email password)
       (Some (\<lambda>d w.
          case parent_emit call fuel ''login'' w of (r, w') \<Rightarrow>
            and_then r w' (\<lambda>x. (Normal d, w'))))"

definition logout ::
  "browser \<Rightarrow>
    ('f \<Rightarrow> 'c \<Rightarrow> jsval list \<Rightarrow> ('f, 'c, 'z) saaslet_scheme \<Rightarrow>
      jsval completion \<times> ('f, 'c, 'z) saaslet_scheme) \<Rightarrow>
    nat \<Rightarrow> user \<Rightarrow>
    ((string \<times> ('f, 'c) registration list) list \<times> ('f, 'c, 'z) saaslet_scheme) call" where
  "logout br call fuel u =
     post br (user_apiUrl u @ ''users/logout'') (Obj [])
       (Some (\<lambda>d w.
          case parent_emit call fuel ''logout'' w of (r, w') \<Rightarrow>
            and_then r w' (\<lambda>x. (Normal d, w'))))"

text \<open>
  \<open>isLoggedIn\<close>. The executor calls \<open>get\<close> and chains \<open>then\<close> and \<open>catch\<close> on what it
  returns; calling \<open>then\<close> on \<open>undefined\<close> throws inside the executor. The result is the
  promise that \<open>isLoggedIn\<close> returns, in its last state, for a given response to the GET.
\<close>

definition isLoggedIn_executor :: "returned \<Rightarrow> promise \<Rightarrow> jsval completion \<times> promise" where
  "isLoggedIn_executor g outer =
     (case g of
        ReturnedUndefined \<Rightarrow> (Throw TypeError, outer)
      | ReturnedPromise p \<Rightarrow>
          (case promise_then p (\<lambda>v out. (Normal Undefined, promise_resolve out (Bool True))) outer of
             (p1, o1) \<Rightarrow>
               (case promise_catch p1 (\<lambda>x out. (Normal Undefined, promise_resolve out (Bool False))) o1 of
                  (p2, o2) \<Rightarrow> (Normal Undefined, o2))))"

definition isLoggedIn :: "browser \<Rightarrow> user \<Rightarrow> xhr option \<Rightarrow> promise" where
  "isLoggedIn br u response =
     new_Promise (isLoggedIn_executor
       (caller_gets (finish (get br (user_apiUrl u @ ''users/data'') None) response ())))"

text \<open>
  Browsers for the examples. In \<open>modern_browser\<close> the standard constructor works and
  gives an opened request; \<open>JSON.parse\<close> is cut down to a few bodies and rejects
  the rest, among them the empty body and \<open><html>\<close>, which the real one rejects too;
  \<open>Math.max\<close> is given on numbers only, and \<open>JSON.stringify\<close> is a stand-in that
  gives the text \<open>{}\<close> for every value (of the text, \<open>sendRequest\<close> only tests
  whether it is empty). In \<open>bare_environment\<close> no constructor of the list exists.
\<close>

definition sample_parse :: "string \<Rightarrow> jsval + jsval" where
  "sample_parse t =
     (if t = ''{}'' then Inr (Obj [])
      else if t = ''[]'' then Inr (Arr [])
      else if t = ''null'' then Inr Null
      else if t = ''true'' then Inr (Bool True)
      else if t = ''false'' then Inr (Bool False)
      else Inl (Error ''SyntaxError''))"

definition sample_max :: "int \<Rightarrow> jsval \<Rightarrow> jsval" where
  "sample_max a v = (case v of Num b \<Rightarrow> Num (max a b) | _ \<Rightarrow> Undefined)"

definition modern_browser :: browser where
  "modern_browser =
     \<lparr>construct = (\<lambda>f. case f of
          XMLHttpRequest \<Rightarrow> Inr \<lparr>readyState = 1, status = 0, responseText = []\<rparr>
        | ActiveXObject n \<Rightarrow> Inl (Error ''ReferenceError'')),
      JSON_parse = sample_parse,
      JSON_stringify = (\<lambda>v. Some ''{}''),
      querySelector = (\<lambda>sel. Inr (if sel = ''#app'' then Some \<lparr>offsetWidth = 300\<rparr> else None)),
      Math_max = sample_max,
      match_origin = (\<lambda>u. Some ''http://devapp.saaslet.com:8080/'')\<rparr>"

definition bare_environment :: browser where
  "bare_environment = modern_browser\<lparr>construct := (\<lambda>f. Inl (Error ''ReferenceError''))\<rparr>"

text \<open>Listeners of the examples: they return \<open>undefined\<close> and leave the emitter alone.\<close>

definition quiet :: "nat \<Rightarrow> nat \<Rightarrow> jsval list \<Rightarrow> 's \<Rightarrow> jsval completion \<times> 's" where
  "quiet f c args s = (Normal Undefined, s)"

text \<open>A listener that unregisters itself from \<open>login\<close> when it is called.\<close>

definition unsubscribing ::
  "'f \<Rightarrow> 'c \<Rightarrow> jsval list \<Rightarrow> ('f, 'c, 'z) emitter_scheme \<Rightarrow>
    jsval completion \<times> ('f, 'c, 'z) emitter_scheme" where
  "unsubscribing f c args s = (Normal Undefined, snd (off ''login'' f c s))"

section \<open>Properties of the EventEmitter\<close>

text \<open>
  The loop of \<open>off\<close> never reads past the array, and removes exactly the entries that
  match: it is a filter. Under a name that the listener object only inherits, \<open>on\<close>
  throws and registers nothing, and \<open>off\<close> throws where the inherited function has
  parameters.
\<close>

lemma off_loop_filter:
  "i \<le> length xs \<Longrightarrow>
     off_loop i f c xs = Some (filter (\<lambda>r. \<not> matching f c r) (take i xs) @ drop i xs)"
proof (induction i arbitrary: xs)
  case 0
  then show ?case by simp
next
  case (Suc i)
  then have lt: "i < length xs" by simp
  show ?case
  proof (cases "matching f c (xs ! i)")
    case True
    let ?ys = "take i xs @ drop (Suc i) xs"
    have len: "i \<le> length ?ys" using lt by simp
    have "off_loop (Suc i) f c xs = off_loop i f c ?ys"
      using True lt by (simp add: matching_def)
    also have "\<dots> = Some (filter (\<lambda>r. \<not> matching f c r) (take i ?ys) @ drop i ?ys)"
      by (rule Suc.IH [OF len])
    also have "take i ?ys = take i xs" using lt by simp
    also have "drop i ?ys = drop (Suc i) xs" using lt by simp
    finally show ?thesis using True lt by (simp add: take_Suc_conv_app_nth)
  next
    case False
    have "off_loop (Suc i) f c xs = off_loop i f c xs"
      using False lt by (auto simp: matching_def)
    also have "\<dots> = Some (filter (\<lambda>r. \<not> matching f c r) (take i xs) @ drop i xs)"
      using Suc.IH [of xs] lt by simp
    finally show ?thesis using False lt
      by (simp add: take_Suc_conv_app_nth Cons_nth_drop_Suc)
  qed
qed

lemma off_loop_all:
  "off_loop (length xs) f c xs = Some (filter (\<lambda>r. \<not> matching f c r) xs)"
  using off_loop_filter [of "length xs" xs f c] by simp

lemma lookup_own: "listener s e = Some xs \<Longrightarrow> lookup s e = Bucket xs"
  by (simp add: lookup_def)

lemma lookup_plain:
  "listener s e = None \<Longrightarrow> Object_prototype e = None \<Longrightarrow> lookup s e = Absent"
  by (simp add: lookup_def)

lemma lookup_inherited:
  "listener s e = None \<Longrightarrow> Object_prototype e = Some v \<Longrightarrow> lookup s e = Inherited v"
  by (simp add: lookup_def)

lemma lookup_Bucket_iff: "lookup s e = Bucket xs \<longleftrightarrow> listener s e = Some xs"
  by (auto simp: lookup_def split: option.splits)

lemma off_returns:
  "Object_prototype e = None \<or> listener s e \<noteq> None \<Longrightarrow> fst (off e f c s) = Normal Undefined"
  by (auto simp: off_def lookup_def off_loop_all split: option.splits)

lemma off_inherited_throws:
  "listener s e = None \<Longrightarrow> Object_prototype e = Some (FunctionOfLength (Suc n)) \<Longrightarrow>
     off e f c s = (Throw TypeError, s)"
  by (simp add: off_def lookup_def)

lemma bucket_off:
  "bucket (snd (off e f c s)) e' =
     (if e' = e then filter (\<lambda>r. \<not> matching f c r) (bucket s e) else bucket s e')"
  by (auto simp: off_def lookup_def off_loop_all bucket_def
      split: option.splits inherited.splits)

lemma on_inherited_throws:
  "listener s e = None \<Longrightarrow> Object_prototype e = Some v \<Longrightarrow>
     on srt e f c ord s = (Throw TypeError, s)"
  by (simp add: on_def lookup_def)

lemma on_registers:
  "Object_prototype e = None \<or> listener s e \<noteq> None \<Longrightarrow>
     on srt e f c ord s =
       (Normal Undefined,
        s\<lparr>listener := (listener s)(e \<mapsto> srt listener_cmp
             (bucket s e @ [\<lparr>rid = next_rid s, eventName = e, fn = f, ctx = c, order = ord\<rparr>])),
          next_rid := Suc (next_rid s)\<rparr>)"
  by (auto simp: on_def lookup_def bucket_def Let_def split: option.splits)

lemma bucket_on:
  "bucket (snd (on srt e f c ord s)) e' =
     (if e' = e \<and> (Object_prototype e = None \<or> listener s e \<noteq> None)
      then srt listener_cmp
             (bucket s e @ [\<lparr>rid = next_rid s, eventName = e, fn = f, ctx = c, order = ord\<rparr>])
      else bucket s e')"
proof (cases "Object_prototype e = None \<or> listener s e \<noteq> None")
  case True
  then show ?thesis by (simp add: on_registers bucket_def)
next
  case False
  then obtain v where "listener s e = None" "Object_prototype e = Some v" by auto
  then show ?thesis by (simp add: on_inherited_throws)
qed

lemma length_filter_mset:
  "mset xs = mset ys \<Longrightarrow> length (filter P xs) = length (filter P ys)"
  by (metis mset_filter size_mset)

lemma registered_on:
  assumes "\<And>cmp xs. mset (srt cmp xs) = mset xs"
  shows "registered (snd (on srt e' f' c' ord s)) e f c =
           registered s e f c +
             (if e' = e \<and> f' = f \<and> c' = c \<and> (Object_prototype e = None \<or> listener s e \<noteq> None)
              then 1 else 0)"
proof (cases "e' = e \<and> (Object_prototype e = None \<or> listener s e \<noteq> None)")
  case True
  let ?new = "\<lparr>rid = next_rid s, eventName = e, fn = f', ctx = c', order = ord\<rparr>"
  have "registered (snd (on srt e' f' c' ord s)) e f c =
          length (filter (matching f c) (srt listener_cmp (bucket s e @ [?new])))"
    using True by (simp add: registered_def bucket_on)
  also have "\<dots> = length (filter (matching f c) (bucket s e @ [?new]))"
    by (rule length_filter_mset) (rule assms)
  finally show ?thesis using True by (auto simp: registered_def matching_def)
next
  case False
  then show ?thesis by (auto simp: registered_def bucket_on)
qed

lemma registered_off_same: "registered (snd (off e f c s)) e f c = 0"
  by (simp add: registered_def bucket_off)

lemma registered_off_zero:
  "registered s e f c = 0 \<Longrightarrow> registered (snd (off e' f' c' s)) e f c = 0"
  by (auto simp: registered_def bucket_off filter_empty_conv)

lemma run_ops_append: "run_ops srt (xs @ ys) s = run_ops srt ys (run_ops srt xs s)"
  by (simp add: run_ops_def)

lemma run_ops_Cons: "run_ops srt (x # xs) s = run_ops srt xs (apply_op srt x s)"
  by (simp add: run_ops_def)

lemma run_ops_Nil: "run_ops srt [] s = s"
  by (simp add: run_ops_def)

lemma registered_stays_zero:
  assumes perm: "\<And>cmp xs. mset (srt cmp xs) = mset xs"
  shows "registered s e f c = 0 \<Longrightarrow> \<forall>ord. On e f c ord \<notin> set ops \<Longrightarrow>
           registered (run_ops srt ops s) e f c = 0"
proof (induction ops arbitrary: s)
  case Nil
  then show ?case by (simp add: run_ops_Nil)
next
  case (Cons x ops)
  have "registered (apply_op srt x s) e f c = 0"
  proof (cases x)
    case (On e' f' c' ord)
    with Cons.prems have "\<not> (e' = e \<and> f' = f \<and> c' = c)" by auto
    with On Cons.prems(1) show ?thesis by (auto simp: registered_on [OF perm])
  next
    case (Off e' f' c')
    with Cons.prems(1) show ?thesis by (simp add: registered_off_zero)
  qed
  with Cons show ?case by (simp add: run_ops_Cons)
qed

lemma registered_zero_nth:
  "registered s e f c = 0 \<Longrightarrow> lookup s e = Bucket xs \<Longrightarrow> i < length xs \<Longrightarrow>
     \<not> matching f c (xs ! i)"
  by (auto simp: registered_def bucket_def filter_empty_conv lookup_Bucket_iff)

lemma emit_loop_skips:
  assumes inv: "\<And>g d a t. registered t e f c = 0 \<Longrightarrow> registered (snd (call g d a t)) e f c = 0"
  shows "registered s e f c = 0 \<Longrightarrow>
           (\<forall>r \<in> set (fst (snd (emit_loop call k e args i s))). \<not> matching f c r)"
proof (induction k arbitrary: i s)
  case 0
  then show ?case by simp
next
  case (Suc k)
  show ?case
  proof (cases "lookup s e")
    case Absent
    then show ?thesis by simp
  next
    case (Inherited v)
    then show ?thesis by simp
  next
    case (Bucket xs)
    show ?thesis
    proof (cases "i < length xs")
      case False
      with Bucket show ?thesis by simp
    next
      case True
      let ?last = "xs ! i"
      obtain r s' where c: "call (fn ?last) (ctx ?last) args s = (r, s')"
        by (cases "call (fn ?last) (ctx ?last) args s")
      have nm: "\<not> matching f c ?last" using registered_zero_nth [OF Suc.prems Bucket True] .
      have z: "registered s' e f c = 0"
        using inv [OF Suc.prems, of "fn ?last" "ctx ?last" args] c by simp
      show ?thesis
      proof (cases r)
        case (Normal v)
        show ?thesis
        proof (cases "v = Bool False")
          case True
          with Bucket \<open>i < length xs\<close> c Normal nm show ?thesis by simp
        next
          case False
          let ?i' = "(case lookup s' e of
                        Bucket ys \<Rightarrow> if i < length ys \<and> rid (ys ! i) = rid ?last then Suc i else i
                      | _ \<Rightarrow> i)"
          have ih: "\<forall>r \<in> set (fst (snd (emit_loop call k e args ?i' s'))). \<not> matching f c r"
            by (rule Suc.IH [OF z])
          obtain r2 tr2 s2 where e2: "emit_loop call k e args ?i' s' = (r2, tr2, s2)"
            by (cases "emit_loop call k e args ?i' s'") auto
          from Bucket \<open>i < length xs\<close> c Normal False nm ih e2 show ?thesis
            by (simp add: Let_def)
        qed
      next
        case (Throw x)
        with Bucket True c nm show ?thesis by simp
      next
        case Diverge
        with Bucket True c nm show ?thesis by simp
      qed
    qed
  qed
qed

lemma mset_ins_rev: "mset (ins_rev cmp x ys) = add_mset x (mset ys)"
  by (induction ys) auto

lemma mset_foldl_ins_rev: "mset (foldl (\<lambda>acc x. ins_rev cmp x acc) acc xs) = mset acc + mset xs"
  by (induction xs arbitrary: acc) (auto simp: mset_ins_rev)

lemma mset_insertion_sort: "mset (insertion_sort cmp xs) = mset xs"
  by (simp add: insertion_sort_def mset_foldl_ins_rev)

lemma registered_ons:
  assumes perm: "\<And>cmp xs. mset (srt cmp xs) = mset xs"
    and plain: "Object_prototype e = None"
  shows "registered (run_ops srt (map (On e f c) ords) s) e f c = registered s e f c + length ords"
  by (induction ords arbitrary: s)
     (simp_all add: run_ops_Nil run_ops_Cons registered_on [OF perm] plain)

lemma inherited_name_registers_nothing:
  assumes "listener s e = None" "Object_prototype e = Some v"
  shows "run_ops srt (map (On e f c) ords) s = s"
  using assms
  by (induction ords) (simp_all add: run_ops_Nil run_ops_Cons on_inherited_throws)

lemma inherited_name_example:
  "on insertion_sort ''constructor'' (1::nat) (0::nat) None new_EventEmitter
     = (Throw TypeError, new_EventEmitter)
   \<and> fst (off ''constructor'' (1::nat) (0::nat) (new_EventEmitter :: (nat, nat) emitter))
       = Throw TypeError
   \<and> fst (off ''toString'' (1::nat) (0::nat) (new_EventEmitter :: (nat, nat) emitter))
       = Normal Undefined
   \<and> fst (emit quiet 5 ''constructor'' [] (new_EventEmitter :: (nat, nat) emitter))
       = Normal Undefined"
  by (simp add: on_def off_def emit_def lookup_def Object_prototype_def new_EventEmitter_def
      numeral_eq_Suc)

text \<open>
  C7. A listener that was unregistered is not called. Let a sequence of \<open>on\<close> and \<open>off\<close>
  calls contain \<open>off(e, f, c)\<close> and after it no \<open>on(e, f, c, _)\<close>. Then an \<open>emit\<close> of
  \<open>e\<close> on the resulting emitter invokes no registration of \<open>f\<close> with context \<open>c\<close>,
  however long it runs, whatever the engine's sort does to the order, and whatever the
  listeners do to the emitter while it runs, as long as none of them registers \<open>f\<close> with
  \<open>c\<close> for \<open>e\<close> again.
\<close>

theorem emit_skips_removed:
  assumes perm: "\<And>cmp xs. mset (srt cmp xs) = mset xs"
    and removed: "ops = before @ Off e f c # after" "\<forall>ord. On e f c ord \<notin> set after"
    and inv: "\<And>g d a t. registered t e f c = 0 \<Longrightarrow> registered (snd (call g d a t)) e f c = 0"
  shows "\<forall>r \<in> set (fst (snd (emit call fuel e args (run_ops srt ops s)))). \<not> matching f c r"
proof -
  let ?s = "run_ops srt ops s"
  have "?s = run_ops srt after (snd (off e f c (run_ops srt before s)))"
    using removed(1) by (simp add: run_ops_append run_ops_Cons)
  then have z: "registered ?s e f c = 0"
    using registered_stays_zero [OF perm registered_off_same removed(2)] by simp
  show ?thesis
    using emit_loop_skips [of e f c call, OF inv z]
    by (simp add: emit_def split: slot.splits)
qed

theorem emit_skips_removed_witness:
  "filter (matching (1::nat) (0::nat))
     (fst (snd (emit quiet 5 ''x'' []
        (run_ops insertion_sort [On ''x'' 1 0 None, On ''x'' 2 0 None, Off ''x'' 1 0]
           new_EventEmitter)))) = []
   \<and> fst (snd (emit quiet 5 ''x'' []
        (run_ops insertion_sort [On ''x'' (1::nat) (0::nat) None, On ''x'' 2 0 None, Off ''x'' 1 0]
           new_EventEmitter)))
     = [\<lparr>rid = 1, eventName = ''x'', fn = 2, ctx = 0, order = None\<rparr>]"
proof -
  have tr: "fst (snd (emit quiet 5 ''x'' []
        (run_ops insertion_sort [On ''x'' (1::nat) (0::nat) None, On ''x'' 2 0 None, Off ''x'' 1 0]
           new_EventEmitter)))
     = [\<lparr>rid = 1, eventName = ''x'', fn = 2, ctx = 0, order = None\<rparr>]"
    by code_simp
  have q: "\<And>g d a t. registered t ''x'' (1::nat) (0::nat) = 0 \<Longrightarrow>
             registered (snd (quiet g d a t)) ''x'' 1 0 = 0"
    by (simp add: quiet_def)
  have "\<forall>r \<in> set (fst (snd (emit quiet 5 ''x'' []
        (run_ops insertion_sort [On ''x'' (1::nat) (0::nat) None, On ''x'' 2 0 None, Off ''x'' 1 0]
           new_EventEmitter)))). \<not> matching 1 0 r"
    using emit_skips_removed [of insertion_sort
        "[On ''x'' (1::nat) (0::nat) None, On ''x'' 2 0 None, Off ''x'' 1 0]"
        "[On ''x'' 1 0 None, On ''x'' 2 0 None]" "''x''" 1 0 "[]" quiet 5 "[]" new_EventEmitter,
        OF mset_insertion_sort _ _ q]
    by simp
  then show ?thesis using tr by (simp add: filter_empty_conv)
qed

text \<open>
  C8, as stated, fails: after two registrations of one function and context, one \<open>off\<close>
  leaves none of them, not one.
\<close>

theorem off_once_counterexample:
  "registered (run_ops insertion_sort [On ''x'' (1::nat) (0::nat) None, On ''x'' 1 0 None]
       new_EventEmitter) ''x'' 1 0 = 2
   \<and> registered (run_ops insertion_sort
        [On ''x'' (1::nat) (0::nat) None, On ''x'' 1 0 None, Off ''x'' 1 0]
          new_EventEmitter) ''x'' 1 0 \<noteq> 2 - 1"
  by code_simp

text \<open>
  C8, amended. Take an event name that is not the name of a property of
  \<open>Object.prototype\<close>, so that \<open>on\<close> registers under it. When the same function and
  context have been registered \<open>n\<close> times for the event, one call of \<open>off\<close> for them
  returns normally and removes all \<open>n\<close> registrations; the other registrations of the
  event stay, in their order.
\<close>

theorem off_removes_all:
  assumes perm: "\<And>cmp xs. mset (srt cmp xs) = mset xs"
    and plain: "Object_prototype e = None"
  shows "registered (run_ops srt (map (On e f c) ords) s) e f c = registered s e f c + length ords
       \<and> fst (off e f c (run_ops srt (map (On e f c) ords) s)) = Normal Undefined
       \<and> registered (snd (off e f c (run_ops srt (map (On e f c) ords) s))) e f c = 0
       \<and> bucket (snd (off e f c (run_ops srt (map (On e f c) ords) s))) e
           = filter (\<lambda>r. \<not> matching f c r) (bucket (run_ops srt (map (On e f c) ords) s) e)"
  by (simp add: registered_ons [OF perm plain] off_returns plain registered_off_same bucket_off)

theorem off_removes_all_witness:
  "Object_prototype ''x'' = None
   \<and> registered (run_ops insertion_sort (map (On ''x'' (1::nat) (0::nat)) [None, Some 3, None])
       (snd (on insertion_sort ''x'' 2 0 None new_EventEmitter))) ''x'' 1 0 = 3
   \<and> registered (snd (off ''x'' 1 0
        (run_ops insertion_sort (map (On ''x'' (1::nat) (0::nat)) [None, Some 3, None])
          (snd (on insertion_sort ''x'' 2 0 None new_EventEmitter))))) ''x'' 1 0 = 0
   \<and> bucket (snd (off ''x'' 1 0
        (run_ops insertion_sort (map (On ''x'' (1::nat) (0::nat)) [None, Some 3, None])
          (snd (on insertion_sort ''x'' 2 0 None new_EventEmitter))))) ''x''
       = [\<lparr>rid = 0, eventName = ''x'', fn = 2, ctx = 0, order = None\<rparr>]"
proof -
  have p: "Object_prototype ''x'' = None"
    by (simp add: Object_prototype_def)
  have z: "registered (snd (on insertion_sort ''x'' 2 0 None new_EventEmitter)) ''x'' (1::nat) (0::nat) = 0"
    by code_simp
  have b: "bucket (snd (off ''x'' 1 0
        (run_ops insertion_sort (map (On ''x'' (1::nat) (0::nat)) [None, Some 3, None])
          (snd (on insertion_sort ''x'' 2 0 None new_EventEmitter))))) ''x''
       = [\<lparr>rid = 0, eventName = ''x'', fn = 2, ctx = 0, order = None\<rparr>]"
    by code_simp
  show ?thesis
    using off_removes_all [of insertion_sort "''x''" "1::nat" "0::nat" "[None, Some 3, None]"
        "snd (on insertion_sort ''x'' 2 0 None new_EventEmitter)", OF mset_insertion_sort p] p z b
    by simp
qed

section \<open>Properties of the transport\<close>

text \<open>
  A request is sent when a constructor of the list gives an object that is not already
  complete; the caller then holds the pending promise, and the handler decides it.
\<close>

lemma sendRequest_sent:
  assumes "createXMLHTTPObject br = Some r0" "readyState r0 \<noteq> 4"
  shows "returned_promise (sendRequest br u pd tf) = True"
    and "call_promise (sendRequest br u pd tf) = Pending"
    and "sent (sendRequest br u pd tf) \<noteq> None"
    and "handler (sendRequest br u pd tf) = Some (onreadystatechange br tf)"
  using assms by (simp_all add: sendRequest_def getPromise_def Let_def)

lemma finish_sent:
  assumes "createXMLHTTPObject br = Some r0" "readyState r0 \<noteq> 4"
  shows "finish (sendRequest br u pd tf) (Some req) w =
           (case onreadystatechange br tf req (Pending, w) of
              (r, p, w') \<Rightarrow> \<lparr>caller_gets = ReturnedPromise p, handler_ended = Some r, world = w'\<rparr>)"
  using sendRequest_sent [OF assms, of u pd tf]
  by (auto simp: finish_def Let_def split: option.splits prod.splits)

lemma parse_failure_pending:
  assumes made: "createXMLHTTPObject br = Some r0" "readyState r0 \<noteq> 4"
    and completed: "readyState req = 4"
    and parsed: "JSON_parse br (responseText req) = Inl x"
  shows "finish (sendRequest br u pd tf) (Some req) w =
           \<lparr>caller_gets = ReturnedPromise Pending, handler_ended = Some (Throw x), world = w\<rparr>"
  using completed parsed
  by (simp add: finish_sent [OF made] onreadystatechange_def)

lemma transform_throw_pending:
  assumes made: "createXMLHTTPObject br = Some r0" "readyState r0 \<noteq> 4"
    and completed: "readyState req = 4"
    and parsed: "JSON_parse br (responseText req) = Inr d"
    and ok: "status req = 200 \<or> status req = 304"
    and thrown: "f (envelope (status req) d) w = (Throw x, w')"
  shows "finish (sendRequest br u pd (Some f)) (Some req) w =
           \<lparr>caller_gets = ReturnedPromise Pending, handler_ended = Some (Throw x), world = w'\<rparr>"
  using completed parsed ok thrown
  by (auto simp: finish_sent [OF made] onreadystatechange_def Let_def)

lemma no_constructor:
  assumes "createXMLHTTPObject br = None"
  shows "finish (sendRequest br u pd tf) response w =
           \<lparr>caller_gets = ReturnedUndefined, handler_ended = None, world = w\<rparr>"
    and "sent (sendRequest br u pd tf) = None"
    and "call_promise (sendRequest br u pd tf) = Rejected (Str ''Could not create XMLHTTPObject'')"
  using assms by (simp_all add: finish_def sendRequest_def getPromise_def Let_def)

lemma modern_made: "createXMLHTTPObject modern_browser = Some \<lparr>readyState = 1, status = 0, responseText = []\<rparr>"
  by (simp add: createXMLHTTPObject_def XMLHttpFactories_def modern_browser_def)

lemma bare_none: "createXMLHTTPObject bare_environment = None"
  by (simp add: createXMLHTTPObject_def XMLHttpFactories_def bare_environment_def modern_browser_def)

lemma sample_parse_obj: "JSON_parse modern_browser ''{}'' = Inr (Obj [])"
  by (simp add: modern_browser_def sample_parse_def)

lemma sample_parse_empty: "JSON_parse modern_browser [] = Inl (Error ''SyntaxError'')"
  by (simp add: modern_browser_def sample_parse_def)

lemma sample_parse_html: "JSON_parse modern_browser ''<html>'' = Inl (Error ''SyntaxError'')"
  by (simp add: modern_browser_def sample_parse_def)

lemma sample_parse_null: "JSON_parse modern_browser ''null'' = Inr Null"
  by (simp add: modern_browser_def sample_parse_def)

lemma post_sendRequest: "post br u d tf = sendRequest br u (JSON_stringify br d) tf"
  by (simp add: post_def)

lemma isLoggedIn_boolean:
  assumes made: "createXMLHTTPObject br = Some r0" "readyState r0 \<noteq> 4"
  shows "isLoggedIn br u response =
           (case caller_gets (finish (get br (user_apiUrl u @ ''users/data'') None) response ()) of
              ReturnedPromise (Fulfilled v) \<Rightarrow> Fulfilled (Bool True)
            | ReturnedPromise (Rejected r) \<Rightarrow> Fulfilled (Bool False)
            | _ \<Rightarrow> Pending)"
proof -
  have "\<exists>p. caller_gets (finish (get br (user_apiUrl u @ ''users/data'') None) response ())
          = ReturnedPromise p"
    using sendRequest_sent [OF made, of "user_apiUrl u @ ''users/data''" None None]
    by (auto simp: finish_def get_def Let_def split: option.splits prod.splits)
  then obtain p where p: "caller_gets (finish (get br (user_apiUrl u @ ''users/data'') None) response ())
          = ReturnedPromise p" ..
  show ?thesis
    by (cases p) (simp_all add: isLoggedIn_def p isLoggedIn_executor_def new_Promise_def)
qed

text \<open>
  A request that was sent and has completed, with a body that \<open>JSON.parse\<close> accepts:
  the envelope is \<open>{status, data}\<close> with the parsed body. With status 200 or 304 the
  promise that the caller holds is fulfilled: with the envelope when no transform function
  was given, and with what the transform function returns on the envelope when one was
  given and returns. With any other status the promise is rejected with the envelope, and
  neither the result nor the state depends on the transform function, which is not
  applied.
\<close>

lemma parsed_response_settles:
  assumes made: "createXMLHTTPObject br = Some r0" "readyState r0 \<noteq> 4"
    and completed: "readyState req = 4"
    and parsed: "JSON_parse br (responseText req) = Inr d"
  shows "(status req = 200 \<or> status req = 304 \<longrightarrow>
            finish (sendRequest br u pd None) (Some req) w =
              \<lparr>caller_gets = ReturnedPromise (Fulfilled (envelope (status req) d)),
               handler_ended = Some (Normal Undefined), world = w\<rparr>
          \<and> (\<forall>f v w'. f (envelope (status req) d) w = (Normal v, w') \<longrightarrow>
                finish (sendRequest br u pd (Some f)) (Some req) w =
                  \<lparr>caller_gets = ReturnedPromise (Fulfilled v),
                   handler_ended = Some (Normal Undefined), world = w'\<rparr>))
       \<and> (status req \<noteq> 200 \<and> status req \<noteq> 304 \<longrightarrow>
            (\<forall>tf. finish (sendRequest br u pd tf) (Some req) w =
              \<lparr>caller_gets = ReturnedPromise (Rejected (envelope (status req) d)),
               handler_ended = Some (Normal Undefined), world = w\<rparr>))"
  using completed parsed
  by (auto simp: finish_sent [OF made] onreadystatechange_def Let_def)

lemma parsed_response_settles_example:
  "finish (sendRequest modern_browser ''https://api.saaslet.com/users/data'' None None)
      (Some \<lparr>readyState = 4, status = 200, responseText = ''{}''\<rparr>) (0::nat) =
     \<lparr>caller_gets = ReturnedPromise (Fulfilled (Obj [(''status'', Num 200), (''data'', Obj [])])),
      handler_ended = Some (Normal Undefined), world = 0\<rparr>
   \<and> finish (sendRequest modern_browser ''https://api.saaslet.com/users/data'' None
        (Some (\<lambda>d w. (Normal (Str ''seen''), Suc w))))
      (Some \<lparr>readyState = 4, status = 304, responseText = ''{}''\<rparr>) (0::nat) =
     \<lparr>caller_gets = ReturnedPromise (Fulfilled (Str ''seen'')),
      handler_ended = Some (Normal Undefined), world = 1\<rparr>
   \<and> finish (sendRequest modern_browser ''https://api.saaslet.com/users/data'' None
        (Some (\<lambda>d w. (Normal (Str ''seen''), Suc w))))
      (Some \<lparr>readyState = 4, status = 404, responseText = ''{}''\<rparr>) (0::nat) =
     \<lparr>caller_gets = ReturnedPromise (Rejected (Obj [(''status'', Num 404), (''data'', Obj [])])),
      handler_ended = Some (Normal Undefined), world = 0\<rparr>"
  using
    parsed_response_settles [OF modern_made, of
      "\<lparr>readyState = 4, status = 200, responseText = ''{}''\<rparr>" "Obj []"
      "''https://api.saaslet.com/users/data''" None "0::nat"]
    parsed_response_settles [OF modern_made, of
      "\<lparr>readyState = 4, status = 304, responseText = ''{}''\<rparr>" "Obj []"
      "''https://api.saaslet.com/users/data''" None "0::nat"]
    parsed_response_settles [OF modern_made, of
      "\<lparr>readyState = 4, status = 404, responseText = ''{}''\<rparr>" "Obj []"
      "''https://api.saaslet.com/users/data''" None "0::nat"]
  by (simp add: sample_parse_obj envelope_def)

text \<open>
  C1 does not hold of the code. The handler parses the body before it looks at the
  status, so a completed request whose body \<open>JSON.parse\<close> rejects settles nothing: a
  404 with an empty body does not reject the promise, and a 304 with an empty body does
  not resolve it. The handler throws, and the promise stays pending.
\<close>

theorem unparsed_body_never_settles:
  "finish (get modern_browser ''https://api.saaslet.com/users/data'' None)
      (Some \<lparr>readyState = 4, status = 404, responseText = []\<rparr>) () =
     \<lparr>caller_gets = ReturnedPromise Pending,
      handler_ended = Some (Throw (Error ''SyntaxError'')), world = ()\<rparr>
   \<and> finish (get modern_browser ''https://api.saaslet.com/users/data'' None)
      (Some \<lparr>readyState = 4, status = 304, responseText = []\<rparr>) () =
     \<lparr>caller_gets = ReturnedPromise Pending,
      handler_ended = Some (Throw (Error ''SyntaxError'')), world = ()\<rparr>"
  by (simp add: get_def finish_sent [OF modern_made] onreadystatechange_def sample_parse_empty)

text \<open>
  C4 does not hold of the code. A response with status 200 whose body \<open>JSON.parse\<close>
  rejects makes the handler throw, and the promise of \<open>get\<close> stays pending; so does the
  promise of \<open>signup\<close> when its transform function throws on the body \<open>null\<close>.
\<close>

theorem throw_leaves_promise_pending:
  "finish (get modern_browser ''https://api.saaslet.com/users/data'' None)
      (Some \<lparr>readyState = 4, status = 200, responseText = ''<html>''\<rparr>) () =
     \<lparr>caller_gets = ReturnedPromise Pending,
      handler_ended = Some (Throw (Error ''SyntaxError'')), world = ()\<rparr>
   \<and> caller_gets (finish (signup modern_browser quiet 3 (new_User ''https://api.saaslet.com/'' ''key'')
          ''a@saaslet.baz'' ''password-a'')
        (Some \<lparr>readyState = 4, status = 200, responseText = ''null''\<rparr>)
        ([], new_Saaslet ''key'' :: (nat, nat) saaslet)) = ReturnedPromise Pending
   \<and> handler_ended (finish (signup modern_browser quiet 3 (new_User ''https://api.saaslet.com/'' ''key'')
          ''a@saaslet.baz'' ''password-a'')
        (Some \<lparr>readyState = 4, status = 200, responseText = ''null''\<rparr>)
        ([], new_Saaslet ''key'' :: (nat, nat) saaslet)) = Some (Throw TypeError)"
  by (simp add: get_def signup_def post_sendRequest finish_sent [OF modern_made]
      onreadystatechange_def sample_parse_html sample_parse_null envelope_def
      parent_emit_def emit_def lookup_def Object_prototype_def new_Saaslet_def and_then_def)

text \<open>
  C5 does not hold of the code. Where every constructor of the factory list throws,
  \<open>sendRequest\<close> rejects the promise it made and sends nothing, but returns
  \<open>undefined\<close>: the caller of \<open>get\<close> or \<open>post\<close> holds no promise to observe.
\<close>

theorem no_constructor_returns_undefined:
  "createXMLHTTPObject bare_environment = None
   \<and> caller_gets (finish (get bare_environment ''https://api.saaslet.com/users/data'' None) None ())
       = ReturnedUndefined
   \<and> call_promise (get bare_environment ''https://api.saaslet.com/users/data'' None
         :: unit call) = Rejected (Str ''Could not create XMLHTTPObject'')
   \<and> sent (get bare_environment ''https://api.saaslet.com/users/data'' None :: unit call) = None
   \<and> caller_gets (finish (post bare_environment ''https://api.saaslet.com/users/logout'' (Obj []) None)
         None ()) = ReturnedUndefined"
  by (simp add: bare_none get_def post_sendRequest no_constructor)

text \<open>
  C2 does not hold of the code. Where every constructor of the factory list throws,
  \<open>get\<close> returns \<open>undefined\<close>, the executor of \<open>isLoggedIn\<close> throws on \<open>.then\<close>, and
  the promise that \<open>isLoggedIn\<close> returns is rejected with the \<open>TypeError\<close>.
\<close>

theorem isLoggedIn_rejects_without_constructor:
  "isLoggedIn bare_environment (new_User ''https://api.saaslet.com/'' ''key'') None
     = Rejected TypeError"
  by (simp add: isLoggedIn_def get_def no_constructor [OF bare_none] isLoggedIn_executor_def
      new_Promise_def)

section \<open>Properties of User\<close>

text \<open>
  The promise that the caller of \<open>sendRequest\<close> holds is fulfilled only by the transform
  function returning, and a call that ends rejected, or that returned no promise, has not
  run the transform function.
\<close>

lemma finish_fulfilled:
  assumes "caller_gets (finish (sendRequest br u pd (Some f)) response w) = ReturnedPromise (Fulfilled v)"
  shows "\<exists>env. f env w = (Normal v, world (finish (sendRequest br u pd (Some f)) response w))"
  using assms
  by (auto simp: finish_def sendRequest_def onreadystatechange_def Let_def getPromise_def
      split: option.splits prod.splits sum.splits completion.splits if_splits)

lemma finish_not_fulfilled:
  assumes "caller_gets (finish (sendRequest br u pd tf) response w) = ReturnedPromise (Rejected r)
           \<or> caller_gets (finish (sendRequest br u pd tf) response w) = ReturnedUndefined"
  shows "world (finish (sendRequest br u pd tf) response w) = w"
  using assms
  by (auto simp: finish_def sendRequest_def onreadystatechange_def Let_def getPromise_def
      split: option.splits prod.splits sum.splits completion.splits if_splits)

lemma emitting_call:
  assumes f: "\<And>d v w'. f d (emitted, s) = (Normal v, w') \<Longrightarrow>
                (\<exists>x. fst (emit call fuel n [] s) = Normal x)
                \<and> w' = (emitted @ [(n, fst (snd (emit call fuel n [] s)))],
                        snd (snd (emit call fuel n [] s)))"
    and out: "out = finish (sendRequest br u pd (Some f)) response (emitted, s)"
  shows "(\<forall>v. caller_gets out = ReturnedPromise (Fulfilled v) \<longrightarrow>
            (\<exists>x. fst (emit call fuel n [] s) = Normal x)
            \<and> world out = (emitted @ [(n, fst (snd (emit call fuel n [] s)))],
                           snd (snd (emit call fuel n [] s))))
       \<and> (\<forall>r. caller_gets out = ReturnedPromise (Rejected r) \<longrightarrow> world out = (emitted, s))
       \<and> (caller_gets out = ReturnedUndefined \<longrightarrow> world out = (emitted, s))"
proof (intro conjI allI impI)
  fix v assume "caller_gets out = ReturnedPromise (Fulfilled v)"
  then obtain env where e: "f env (emitted, s) = (Normal v, world out)"
    using finish_fulfilled [of br u pd f response "(emitted, s)" v] out by auto
  from f [OF e] show "\<exists>x. fst (emit call fuel n [] s) = Normal x" by (rule conjunct1)
  from f [OF e] show "world out = (emitted @ [(n, fst (snd (emit call fuel n [] s)))],
                           snd (snd (emit call fuel n [] s)))" by (rule conjunct2)
next
  fix r assume "caller_gets out = ReturnedPromise (Rejected r)"
  then show "world out = (emitted, s)"
    using finish_not_fulfilled [of br u pd "Some f" response "(emitted, s)" r] out by simp
next
  assume "caller_gets out = ReturnedUndefined"
  then show "world out = (emitted, s)"
    using finish_not_fulfilled [of br u pd "Some f" response "(emitted, s)"] out by simp
qed

lemma signup_transform_returns:
  "(case parent_emit call fuel n (emitted, s) of (r, w') \<Rightarrow>
      and_then r w' (\<lambda>x. and_then (get_prop d ''data'') w' (\<lambda>dd. (get_prop dd ''userId'', w'))))
     = (Normal v, w0) \<Longrightarrow>
   (\<exists>x. fst (emit call fuel n [] s) = Normal x)
   \<and> w0 = (emitted @ [(n, fst (snd (emit call fuel n [] s)))], snd (snd (emit call fuel n [] s)))"
  by (auto simp: parent_emit_def and_then_def split: prod.splits completion.splits)

lemma login_transform_returns:
  "(case parent_emit call fuel n (emitted, s) of (r, w') \<Rightarrow>
      and_then r w' (\<lambda>x. (Normal d, w'))) = (Normal v, w0) \<Longrightarrow>
   (\<exists>x. fst (emit call fuel n [] s) = Normal x)
   \<and> w0 = (emitted @ [(n, fst (snd (emit call fuel n [] s)))], snd (snd (emit call fuel n [] s)))"
  by (auto simp: parent_emit_def and_then_def split: prod.splits completion.splits)

text \<open>
  C6. For each of \<open>signup\<close>, \<open>login\<close> and \<open>logout\<close>, whatever the browser, the
  listeners and the response: when the promise of the call is fulfilled, \<open>emit\<close> ran on
  the parent exactly once, for the event of that name, and returned: the parent is in the
  state that this one run of \<open>emit\<close> leaves, and the history has gained the one entry
  with the registrations that it invoked. When the promise is rejected, or the call
  returned none, no emission was made and the parent is as it was.
\<close>

theorem events_on_success_only:
  assumes op: "(c, n) \<in> {(signup br call fuel u email password, ''signup''),
                          (login br call fuel u email password, ''login''),
                          (logout br call fuel u, ''logout'')}"
    and out: "out = finish c response (emitted, s)"
  shows "(\<forall>v. caller_gets out = ReturnedPromise (Fulfilled v) \<longrightarrow>
            (\<exists>x. fst (emit call fuel n [] s) = Normal x)
            \<and> world out = (emitted @ [(n, fst (snd (emit call fuel n [] s)))],
                           snd (snd (emit call fuel n [] s))))
       \<and> (\<forall>r. caller_gets out = ReturnedPromise (Rejected r) \<longrightarrow> world out = (emitted, s))
       \<and> (caller_gets out = ReturnedUndefined \<longrightarrow> world out = (emitted, s))"
proof -
  from op consider
      (signup) "c = signup br call fuel u email password" "n = ''signup''"
    | (login) "c = login br call fuel u email password" "n = ''login''"
    | (logout) "c = logout br call fuel u" "n = ''logout''"
    by auto
  then show ?thesis
  proof cases
    case signup
    show ?thesis
      by (rule emitting_call [where br = br and response = response
            and u = "user_apiUrl u @ ''users/signup''"
            and pd = "JSON_stringify br (credentials u email password)"
            and f = "\<lambda>d w. case parent_emit call fuel ''signup'' w of (r, w') \<Rightarrow>
                and_then r w' (\<lambda>x. and_then (get_prop d ''data'') w'
                  (\<lambda>dd. (get_prop dd ''userId'', w')))"])
         (use signup out in \<open>auto simp: signup_def post_def dest: signup_transform_returns\<close>)
  next
    case login
    show ?thesis
      by (rule emitting_call [where br = br and response = response
            and u = "user_apiUrl u @ ''users/login''"
            and pd = "JSON_stringify br (credentials u email password)"
            and f = "\<lambda>d w. case parent_emit call fuel ''login'' w of (r, w') \<Rightarrow>
                and_then r w' (\<lambda>x. (Normal d, w'))"])
         (use login out in \<open>auto simp: login_def post_def dest: login_transform_returns\<close>)
  next
    case logout
    show ?thesis
      by (rule emitting_call [where br = br and response = response
            and u = "user_apiUrl u @ ''users/logout''"
            and pd = "JSON_stringify br (Obj [])"
            and f = "\<lambda>d w. case parent_emit call fuel ''logout'' w of (r, w') \<Rightarrow>
                and_then r w' (\<lambda>x. (Normal d, w'))"])
         (use logout out in \<open>auto simp: logout_def post_def dest: login_transform_returns\<close>)
  qed
qed

theorem events_on_success_only_witness:
  "hasListeners ''login''
      (snd (on insertion_sort ''login'' (7::nat) (0::nat) None (new_Saaslet ''key'')))
   \<and> caller_gets (finish (login modern_browser unsubscribing 3
        (new_User ''https://api.saaslet.com/'' ''key'') ''a@saaslet.baz'' ''password-a'')
      (Some \<lparr>readyState = 4, status = 200, responseText = ''{}''\<rparr>)
      ([], snd (on insertion_sort ''login'' (7::nat) (0::nat) None (new_Saaslet ''key''))))
     = ReturnedPromise (Fulfilled (Obj [(''status'', Num 200), (''data'', Obj [])]))
   \<and> fst (world (finish (login modern_browser unsubscribing 3
        (new_User ''https://api.saaslet.com/'' ''key'') ''a@saaslet.baz'' ''password-a'')
      (Some \<lparr>readyState = 4, status = 200, responseText = ''{}''\<rparr>)
      ([], snd (on insertion_sort ''login'' (7::nat) (0::nat) None (new_Saaslet ''key'')))))
     = [(''login'', [\<lparr>rid = 0, eventName = ''login'', fn = 7, ctx = 0, order = None\<rparr>])]
   \<and> \<not> hasListeners ''login'' (snd (world (finish (login modern_browser unsubscribing 3
        (new_User ''https://api.saaslet.com/'' ''key'') ''a@saaslet.baz'' ''password-a'')
      (Some \<lparr>readyState = 4, status = 200, responseText = ''{}''\<rparr>)
      ([], snd (on insertion_sort ''login'' (7::nat) (0::nat) None (new_Saaslet ''key''))))))
   \<and> caller_gets (finish (login modern_browser unsubscribing 3
        (new_User ''https://api.saaslet.com/'' ''key'') ''a@saaslet.baz'' ''wrong'')
      (Some \<lparr>readyState = 4, status = 404, responseText = ''{}''\<rparr>)
      ([], snd (on insertion_sort ''login'' (7::nat) (0::nat) None (new_Saaslet ''key''))))
     = ReturnedPromise (Rejected (Obj [(''status'', Num 404), (''data'', Obj [])]))
   \<and> fst (world (finish (login modern_browser unsubscribing 3
        (new_User ''https://api.saaslet.com/'' ''key'') ''a@saaslet.baz'' ''wrong'')
      (Some \<lparr>readyState = 4, status = 404, responseText = ''{}''\<rparr>)
      ([], snd (on insertion_sort ''login'' (7::nat) (0::nat) None (new_Saaslet ''key'')))))
     = []
   \<and> hasListeners ''login'' (snd (world (finish (login modern_browser unsubscribing 3
        (new_User ''https://api.saaslet.com/'' ''key'') ''a@saaslet.baz'' ''wrong'')
      (Some \<lparr>readyState = 4, status = 404, responseText = ''{}''\<rparr>)
      ([], snd (on insertion_sort ''login'' (7::nat) (0::nat) None (new_Saaslet ''key''))))))"
proof -
  let ?u = "new_User ''https://api.saaslet.com/'' ''key''"
  let ?s = "snd (on insertion_sort ''login'' (7::nat) (0::nat) None (new_Saaslet ''key''))"
  let ?ok = "finish (login modern_browser unsubscribing 3 ?u ''a@saaslet.baz'' ''password-a'')
      (Some \<lparr>readyState = 4, status = 200, responseText = ''{}''\<rparr>) ([], ?s)"
  let ?bad = "finish (login modern_browser unsubscribing 3 ?u ''a@saaslet.baz'' ''wrong'')
      (Some \<lparr>readyState = 4, status = 404, responseText = ''{}''\<rparr>) ([], ?s)"
  have h: "hasListeners ''login'' ?s"
    by code_simp
  have a: "caller_gets ?ok = ReturnedPromise (Fulfilled (Obj [(''status'', Num 200), (''data'', Obj [])]))"
    by code_simp
  have b: "caller_gets ?bad = ReturnedPromise (Rejected (Obj [(''status'', Num 404), (''data'', Obj [])]))"
    by code_simp
  have t: "fst (snd (emit unsubscribing 3 ''login'' [] ?s))
             = [\<lparr>rid = 0, eventName = ''login'', fn = 7, ctx = 0, order = None\<rparr>]"
    by code_simp
  have g: "\<not> hasListeners ''login'' (snd (snd (emit unsubscribing 3 ''login'' [] ?s)))"
    by code_simp
  have ok: "world ?ok = ([(''login'', fst (snd (emit unsubscribing 3 ''login'' [] ?s)))],
                         snd (snd (emit unsubscribing 3 ''login'' [] ?s)))"
    using a
      events_on_success_only [of "login modern_browser unsubscribing 3 ?u ''a@saaslet.baz'' ''password-a''"
        "''login''" modern_browser unsubscribing 3 ?u "''a@saaslet.baz''" "''password-a''" ?ok
        "Some \<lparr>readyState = 4, status = 200, responseText = ''{}''\<rparr>" "[]" ?s]
    by simp
  have bad: "world ?bad = ([], ?s)"
    using b
      events_on_success_only [of "login modern_browser unsubscribing 3 ?u ''a@saaslet.baz'' ''wrong''"
        "''login''" modern_browser unsubscribing 3 ?u "''a@saaslet.baz''" "''wrong''" ?bad
        "Some \<lparr>readyState = 4, status = 404, responseText = ''{}''\<rparr>" "[]" ?s]
    by simp
  from h a b t g show ?thesis
    by (simp only: ok bad fst_conv snd_conv simp_thms)
qed

section \<open>Properties of the widget registry\<close>

text \<open>Decimal rendering is injective, so ids of distinct counters differ.\<close>

lemma show_nat_not_Nil: "show_nat n \<noteq> []"
  by (subst show_nat.simps) simp

lemma digit_char_inj: "a < 10 \<Longrightarrow> b < 10 \<Longrightarrow> digit_char a = digit_char b \<Longrightarrow> a = b"
  by (simp add: digit_char_def char_of_eq_iff take_bit_eq_mod)

lemma show_nat_inj: "show_nat m = show_nat n \<Longrightarrow> m = n"
proof (induction m arbitrary: n rule: show_nat.induct)
  case (1 m)
  show ?case
  proof (cases "m < 10")
    case m: True
    show ?thesis
    proof (cases "n < 10")
      case True
      with m "1.prems" show ?thesis
        by (simp add: show_nat.simps [of m] show_nat.simps [of n] digit_char_inj)
    next
      case False
      with m "1.prems" show ?thesis
        by (simp add: show_nat.simps [of m] show_nat.simps [of n] show_nat_not_Nil [THEN not_sym])
    qed
  next
    case m: False
    show ?thesis
    proof (cases "n < 10")
      case True
      with m "1.prems" show ?thesis
        by (simp add: show_nat.simps [of m] show_nat.simps [of n] show_nat_not_Nil)
    next
      case False
      with m "1.prems" have eq: "show_nat (m div 10) = show_nat (n div 10)"
        and d: "digit_char (m mod 10) = digit_char (n mod 10)"
        by (simp_all add: show_nat.simps [of m] show_nat.simps [of n])
      from "1.IH" [OF m eq] have "m div 10 = n div 10" .
      moreover from d have "m mod 10 = n mod 10" by (simp add: digit_char_inj)
      ultimately show ?thesis by (metis div_mult_mod_eq)
    qed
  qed
qed

lemma createWidget_result:
  "createWidget br n a s = (r, s') \<Longrightarrow>
     (r = Normal (length (widgets s))
        \<and> widget_id (widgets s' ! length (widgets s)) = ''wid_'' @ show_nat (widgetCount s)
        \<and> widgetCount s' = Suc (widgetCount s))
     \<or> ((\<forall>ref. r \<noteq> Normal ref) \<and> s' = s)"
  by (auto simp: createWidget_def and_then_def new_Widget_def Let_def
      split: completion.splits option.splits)

lemma widgetCount_destroy: "widgetCount (destroy ref s) = widgetCount s"
  by (simp add: destroy_def removeWidget_def Let_def)

lemma run_widget_ops_ids:
  "fst (run_widget_ops br ops s) =
      map (\<lambda>k. ''wid_'' @ show_nat k) [widgetCount s ..< widgetCount (snd (run_widget_ops br ops s))]
   \<and> widgetCount s \<le> widgetCount (snd (run_widget_ops br ops s))"
proof (induction ops arbitrary: s)
  case Nil
  show ?case by simp
next
  case (Cons x ops)
  show ?case
  proof (cases x)
    case (Destroy ref)
    with Cons [of "destroy ref s"] show ?thesis by (simp add: widgetCount_destroy)
  next
    case (CreateWidget n a)
    obtain r s' where c: "createWidget br n a s = (r, s')" by (cases "createWidget br n a s")
    from createWidget_result [OF c] show ?thesis
    proof
      assume ok: "r = Normal (length (widgets s))
        \<and> widget_id (widgets s' ! length (widgets s)) = ''wid_'' @ show_nat (widgetCount s)
        \<and> widgetCount s' = Suc (widgetCount s)"
      obtain ids s'' where rest: "run_widget_ops br ops s' = (ids, s'')"
        by (cases "run_widget_ops br ops s'")
      from Cons [of s'] rest ok
      have ids: "ids = map (\<lambda>k. ''wid_'' @ show_nat k) [Suc (widgetCount s) ..< widgetCount s'']"
        and le: "Suc (widgetCount s) \<le> widgetCount s''" by simp_all
      from le have "[widgetCount s ..< widgetCount s''] = widgetCount s # [Suc (widgetCount s) ..< widgetCount s'']"
        by (simp add: upt_conv_Cons)
      with CreateWidget c ok rest ids le show ?thesis by simp
    next
      assume no: "(\<forall>ref. r \<noteq> Normal ref) \<and> s' = s"
      then have "run_widget_ops br (CreateWidget n a # ops) s = run_widget_ops br ops s"
        using c by (cases r) simp_all
      with CreateWidget Cons [of s] show ?thesis by simp
    qed
  qed
qed

lemma resize_unregistered:
  assumes "get_prop (data msg) ''source'' = Normal (Str ''saaslet-widget'')"
    and "get_prop (data msg) ''action'' = Normal (Str ''resize'')"
    and "get_prop (data msg) ''widgetId'' = Normal i"
    and "activeWidgets s (to_key i) = None"
  shows "onWidgetMessage br msg s = (Throw TypeError, s)"
  using assms by (simp add: onWidgetMessage_def and_then_def)

lemma destroy_unregisters:
  "ref < length (widgets s) \<Longrightarrow> activeWidgets (destroy ref s) (widget_id (widgets s ! ref)) = None"
  by (simp add: destroy_def removeWidget_def Let_def)

text \<open>
  C9. For every sequence of \<open>createWidget\<close> and \<open>destroy\<close> calls on an instance, the
  widgets that \<open>createWidget\<close> returns carry the ids \<open>wid_n\<close>, \<open>wid_(n+1)\<close>, \<dots> in the
  order of creation, \<open>n\<close> being the counter at the start: the counter grows by one with
  each widget created and is never lowered by \<open>destroy\<close>, and the ids are pairwise
  distinct.
\<close>

theorem widget_ids_unique_increasing:
  "fst (run_widget_ops br ops s) =
      map (\<lambda>k. ''wid_'' @ show_nat k)
        [widgetCount s ..< widgetCount s + length (fst (run_widget_ops br ops s))]
   \<and> distinct (fst (run_widget_ops br ops s))
   \<and> widgetCount (snd (run_widget_ops br ops s))
       = widgetCount s + length (fst (run_widget_ops br ops s))"
proof -
  let ?ids = "fst (run_widget_ops br ops s)" and ?n = "widgetCount (snd (run_widget_ops br ops s))"
  have ids: "?ids = map (\<lambda>k. ''wid_'' @ show_nat k) [widgetCount s ..< ?n]"
    and le: "widgetCount s \<le> ?n"
    using run_widget_ops_ids [of br ops s] by simp_all
  have len: "length ?ids = ?n - widgetCount s"
    by (subst ids) simp
  have n: "?n = widgetCount s + length ?ids" using len le by simp
  have "inj_on (\<lambda>k. ''wid_'' @ show_nat k) (set [widgetCount s ..< ?n])"
    by (rule inj_onI) (simp add: show_nat_inj)
  then have "distinct (map (\<lambda>k. ''wid_'' @ show_nat k) [widgetCount s ..< ?n])"
    by (simp add: distinct_map)
  then have d: "distinct ?ids" using ids by simp
  from ids n d show ?thesis by metis
qed

theorem widget_ids_unique_increasing_witness:
  "fst (run_widget_ops modern_browser
      [CreateWidget ''login-signup'' (Selector ''#app''), Destroy 0,
       CreateWidget ''payment'' (Selector ''#missing''),
       CreateWidget ''payment'' (Selector ''#app'')]
      (new_Saaslet ''key'' :: (nat, nat) saaslet)) = [''wid_0'', ''wid_1'']
   \<and> distinct (fst (run_widget_ops modern_browser
      [CreateWidget ''login-signup'' (Selector ''#app''), Destroy 0,
       CreateWidget ''payment'' (Selector ''#missing''),
       CreateWidget ''payment'' (Selector ''#app'')]
      (new_Saaslet ''key'' :: (nat, nat) saaslet)))"
proof -
  have ids: "fst (run_widget_ops modern_browser
      [CreateWidget ''login-signup'' (Selector ''#app''), Destroy 0,
       CreateWidget ''payment'' (Selector ''#missing''),
       CreateWidget ''payment'' (Selector ''#app'')]
      (new_Saaslet ''key'' :: (nat, nat) saaslet)) = [''wid_0'', ''wid_1'']"
    by code_simp
  have d: "distinct (fst (run_widget_ops modern_browser
      [CreateWidget ''login-signup'' (Selector ''#app''), Destroy 0,
       CreateWidget ''payment'' (Selector ''#missing''),
       CreateWidget ''payment'' (Selector ''#app'')]
      (new_Saaslet ''key'' :: (nat, nat) saaslet)))"
    using widget_ids_unique_increasing [of modern_browser
      "[CreateWidget ''login-signup'' (Selector ''#app''), Destroy 0,
        CreateWidget ''payment'' (Selector ''#missing''),
        CreateWidget ''payment'' (Selector ''#app'')]"
      "new_Saaslet ''key'' :: (nat, nat) saaslet"]
    by blast
  from ids d show ?thesis by (rule conjI)
qed

text \<open>
  C3 does not hold of the code. After a widget has been created and destroyed, a
  \<open>resize\<close> message that carries its id makes the handler throw a \<open>TypeError\<close>; no
  frame is resized.
\<close>

theorem resize_for_destroyed_widget_throws:
  "activeWidgets (snd (createWidget modern_browser ''login-signup'' (Selector ''#app'')
       (new_Saaslet ''key'' :: (nat, nat) saaslet))) ''wid_0'' = Some 0
   \<and> activeWidgets (destroy 0 (snd (createWidget modern_browser ''login-signup'' (Selector ''#app'')
       (new_Saaslet ''key'' :: (nat, nat) saaslet)))) ''wid_0'' = None
   \<and> fst (onWidgetMessage modern_browser
        \<lparr>msg_origin = ''http://devapp.saaslet.com:8080'',
         data = Obj [(''source'', Str ''saaslet-widget''), (''action'', Str ''resize''),
                     (''widgetId'', Str ''wid_0''),
                     (''data'', Obj [(''width'', Num 500), (''height'', Num 600)])]\<rparr>
        (destroy 0 (snd (createWidget modern_browser ''login-signup'' (Selector ''#app'')
           (new_Saaslet ''key'' :: (nat, nat) saaslet))))) = Throw TypeError
   \<and> widgets (snd (onWidgetMessage modern_browser
        \<lparr>msg_origin = ''http://devapp.saaslet.com:8080'',
         data = Obj [(''source'', Str ''saaslet-widget''), (''action'', Str ''resize''),
                     (''widgetId'', Str ''wid_0''),
                     (''data'', Obj [(''width'', Num 500), (''height'', Num 600)])]\<rparr>
        (destroy 0 (snd (createWidget modern_browser ''login-signup'' (Selector ''#app'')
           (new_Saaslet ''key'' :: (nat, nat) saaslet))))))
     = widgets (destroy 0 (snd (createWidget modern_browser ''login-signup'' (Selector ''#app'')
           (new_Saaslet ''key'' :: (nat, nat) saaslet))))"
  by code_simp

text \<open>
  C10. The handler never reads the origin of a message: two messages with the same
  payload have the same effect on the instance, whoever sent them.
\<close>

theorem message_origin_ignored:
  assumes "data m1 = data m2"
  shows "onWidgetMessage br m1 s = onWidgetMessage br m2 s"
  unfolding onWidgetMessage_def assms by (rule refl)

theorem message_origin_ignored_witness:
  "onWidgetMessage modern_browser
      \<lparr>msg_origin = ''http://devapp.saaslet.com:8080'',
       data = Obj [(''source'', Str ''saaslet-widget''), (''action'', Str ''resize''),
                   (''widgetId'', Str ''wid_0''),
                   (''data'', Obj [(''width'', Num 500), (''height'', Num 600)])]\<rparr>
      (snd (createWidget modern_browser ''login-signup'' (Selector ''#app'')
         (new_Saaslet ''key'' :: (nat, nat) saaslet)))
   = onWidgetMessage modern_browser
      \<lparr>msg_origin = ''https://attacker.example'',
       data = Obj [(''source'', Str ''saaslet-widget''), (''action'', Str ''resize''),
                   (''widgetId'', Str ''wid_0''),
                   (''data'', Obj [(''width'', Num 500), (''height'', Num 600)])]\<rparr>
      (snd (createWidget modern_browser ''login-signup'' (Selector ''#app'')
         (new_Saaslet ''key'' :: (nat, nat) saaslet)))
   \<and> map (\<lambda>w. (width (iFrame w), height (iFrame w)))
       (widgets (snd (onWidgetMessage modern_browser
          \<lparr>msg_origin = ''https://attacker.example'',
           data = Obj [(''source'', Str ''saaslet-widget''), (''action'', Str ''resize''),
                       (''widgetId'', Str ''wid_0''),
                       (''data'', Obj [(''width'', Num 500), (''height'', Num 600)])]\<rparr>
          (snd (createWidget modern_browser ''login-signup'' (Selector ''#app'')
             (new_Saaslet ''key'' :: (nat, nat) saaslet))))))
     = [(Num 500, Num 600)]"
proof -
  have "map (\<lambda>w. (width (iFrame w), height (iFrame w)))
       (widgets (snd (onWidgetMessage modern_browser
          \<lparr>msg_origin = ''https://attacker.example'',
           data = Obj [(''source'', Str ''saaslet-widget''), (''action'', Str ''resize''),
                       (''widgetId'', Str ''wid_0''),
                       (''data'', Obj [(''width'', Num 500), (''height'', Num 600)])]\<rparr>
          (snd (createWidget modern_browser ''login-signup'' (Selector ''#app'')
             (new_Saaslet ''key'' :: (nat, nat) saaslet))))))
     = [(Num 500, Num 600)]"
    by code_simp
  then show ?thesis
    using message_origin_ignored [of
      "\<lparr>msg_origin = ''http://devapp.saaslet.com:8080'',
       data = Obj [(''source'', Str ''saaslet-widget''), (''action'', Str ''resize''),
                   (''widgetId'', Str ''wid_0''),
                   (''data'', Obj [(''width'', Num 500), (''height'', Num 600)])]\<rparr>"
      "\<lparr>msg_origin = ''https://attacker.example'',
       data = Obj [(''source'', Str ''saaslet-widget''), (''action'', Str ''resize''),
                   (''widgetId'', Str ''wid_0''),
                   (''data'', Obj [(''width'', Num 500), (''height'', Num 600)])]\<rparr>"
      modern_browser
      "snd (createWidget modern_browser ''login-signup'' (Selector ''#app'')
         (new_Saaslet ''key'' :: (nat, nat) saaslet))"]
    by simp
qed

end
